theory Spec2Isabelle
  imports Main "HOL-Library.Word" "HOL-Library.Signed_Division"
begin

unbundle bit_operations_syntax

section \<open>C integers and Lua values\<close>

text \<open>
  The binding is C code between a Lua interpreter and the CoAP engine. Its integers are
  modelled with their widths: \<open>uint8_t\<close> and \<open>char\<close> as 8-bit words, \<open>uint16_t\<close> as
  16-bit words, \<open>int\<close>, \<open>unsigned\<close> and \<open>uint32_t\<close> as 32-bit words (read with \<open>sint\<close>
  where the C type is signed) and \<open>lua_Integer\<close> as 64-bit words. Sizes and indices
  (\<open>size_t\<close>) that only count bytes of one message are natural numbers.
\<close>

type_synonym byte = "8 word"
type_synonym uint16 = "16 word"
type_synonym uint32 = "32 word"
type_synonym lua_Integer = "64 word"

text \<open>A string literal as the bytes a C string holds.\<close>

definition bytes_of :: "string \<Rightarrow> byte list" where
  "bytes_of s = map of_char s"

text \<open>
  The Lua values the binding looks at. Numbers are Lua integers (the float subtype is
  left out), strings are byte strings, tables are sequences read with \<open>luaL_len\<close> and
  \<open>lua_rawgeti\<close> (1-based), and \<open>LFunction\<close> is any callable.
\<close>

datatype lua_value =
    LNil
  | LBool bool
  | LInt lua_Integer
  | LStr "byte list"
  | LTable "lua_value list"
  | LFunction nat

datatype lua_type =
  LUA_TNONE | LUA_TNIL | LUA_TBOOLEAN | LUA_TNUMBER | LUA_TSTRING | LUA_TTABLE | LUA_TFUNCTION

fun type_of_value :: "lua_value \<Rightarrow> lua_type" where
  "type_of_value LNil = LUA_TNIL"
| "type_of_value (LBool b) = LUA_TBOOLEAN"
| "type_of_value (LInt n) = LUA_TNUMBER"
| "type_of_value (LStr s) = LUA_TSTRING"
| "type_of_value (LTable t) = LUA_TTABLE"
| "type_of_value (LFunction f) = LUA_TFUNCTION"

text \<open>
  A method receives its arguments after the object reference (\<open>_get_self\<close> drops the
  reference when the call was written \<open>obj:method()\<close>), so \<open>arg_base + k\<close> of the source
  is the \<open>k\<close>-th element of the argument list, and \<open>lua_gettop(L) >= arg_base + k\<close> is
  \<open>k \<le> length args\<close>.
\<close>

definition lua_arg :: "lua_value list \<Rightarrow> nat \<Rightarrow> lua_value option" where
  "lua_arg args k = (if 1 \<le> k \<and> k \<le> length args then Some (args ! (k - 1)) else None)"

definition lua_type :: "lua_value list \<Rightarrow> nat \<Rightarrow> lua_type" where
  "lua_type args k = (case lua_arg args k of None \<Rightarrow> LUA_TNONE | Some v \<Rightarrow> type_of_value v)"

text \<open>
  Errors raised to the script with \<open>luaL_error\<close> and the \<open>luaL_check*\<close> family, named
  after the failure they report; \<open>Aborted\<close> is a failed \<open>assert\<close>, which stops the
  process instead of raising a Lua error.
\<close>

datatype error =
    ObjectLocked          \<comment> \<open>"Object is locked and can not be accessed anymore"\<close>
  | InvalidMethod         \<comment> \<open>"Invalid method %s of object %s"\<close>
  | WrongSendPath         \<comment> \<open>"Use this routine for messages created by new_msg()"\<close>
  | InvalidArgument       \<comment> \<open>a \<open>luaL_check*\<close> failure or "Invalid argument ..."\<close>
  | OptionTooLarge        \<comment> \<open>"Invalid argument: array size larger than 255 bytes"\<close>
  | OptionOrderViolation  \<comment> \<open>"coap_add_option() failed; check order of added options"\<close>
  | TooManyFilterArgs     \<comment> \<open>"Number of arguments exceeded 10"\<close>
  | EngineFailure         \<comment> \<open>"coap_pdu_init() failed"\<close>
  | Aborted               \<comment> \<open>\<open>assert\<close> failed\<close>

text \<open>
  The conversions that the Lua C API applies on its own (a string holding a number taken
  as an integer, a number taken as a string) are left out: an argument passes a
  \<open>luaL_check*\<close> function only if it already has the Lua type asked for.
\<close>

definition luaL_checkinteger :: "lua_value list \<Rightarrow> nat \<Rightarrow> error + lua_Integer" where
  "luaL_checkinteger args k =
     (case lua_arg args k of Some (LInt n) \<Rightarrow> Inr n | _ \<Rightarrow> Inl InvalidArgument)"

section \<open>The engine's message and the message object\<close>

text \<open>
  The PDU of the CoAP engine, as far as the binding reads and writes it: the header
  fields, the token, the options in the order they were added (option number and raw
  value), the highest option number added so far, the payload, and the bytes used and
  allowed for token, options and payload.
\<close>

record coap_pdu =
  pdu_type :: byte
  pdu_code :: byte
  pdu_tid :: uint16
  pdu_token :: "byte list"
  pdu_opts :: "(uint16 \<times> byte list) list"
  pdu_max_delta :: uint16
  pdu_data :: "byte list"
  pdu_used_size :: nat
  pdu_max_size :: nat

text \<open>The access mode bit-field of \<open>ud_coap_pdu_t\<close> and the handler kinds.\<close>

record access_t =
  ro :: bool
  lck :: bool
  hndlr :: nat

definition ACS_NO_HNDLR :: nat where "ACS_NO_HNDLR = 0"
definition ACS_REQ_HNDLR :: nat where "ACS_REQ_HNDLR = 1"
definition ACS_RESP_HNDLR :: nat where "ACS_RESP_HNDLR = 2"
definition ACS_NACK_HNDLR :: nat where "ACS_NACK_HNDLR = 3"

text \<open>
  The session of the engine, as far as the connection object uses it: the retransmit
  count (\<open>unsigned int\<close>) and the ACK timeout, a fixed-point value of two \<open>uint16_t\<close>.
\<close>

record coap_fixed_point_t =
  integer_part :: uint16
  fractional_part :: uint16

record coap_session =
  max_retransmit :: uint32
  ack_timeout :: coap_fixed_point_t

record ud_coap_pdu =
  pdu :: coap_pdu
  session :: "coap_session option"
  def_code :: uint32
  access :: access_t

section \<open>Message id\<close>

text \<open>
  \<open>l_coap_pdu_get_msg_id\<close> pushes \<open>pdu->tid\<close>; \<open>l_coap_pdu_set_msg_id\<close> reads a Lua
  integer into an \<open>int\<close> and stores it cast to \<open>uint16_t\<close>.
\<close>

definition l_coap_pdu_get_msg_id :: "ud_coap_pdu \<Rightarrow> lua_value list" where
  "l_coap_pdu_get_msg_id ud = [LInt (ucast (pdu_tid (pdu ud)))]"

definition l_coap_pdu_set_msg_id ::
  "ud_coap_pdu \<Rightarrow> lua_value list \<Rightarrow> ud_coap_pdu \<times> (error + lua_value list)" where
  "l_coap_pdu_set_msg_id ud args =
     (case luaL_checkinteger args 1 of
        Inl e \<Rightarrow> (ud, Inl e)
      | Inr n \<Rightarrow>
          (let msg_id = (ucast n :: uint32)
           in (ud\<lparr>pdu := (pdu ud)\<lparr>pdu_tid := ucast msg_id\<rparr>\<rparr>, Inr [])))"

section \<open>Connection settings\<close>

text \<open>
  \<open>l_coap_conn_set_max_retransmit\<close> and \<open>l_coap_conn_set_ack_timeout\<close> read a Lua
  integer into an \<open>unsigned\<close> and then assert that it is positive. The getters push
  the stored fields; the timeout is \<open>1000 * integer_part + fractional_part\<close>, computed
  in \<open>int\<close> from two \<open>uint16_t\<close>, which cannot overflow.
\<close>

definition l_coap_conn_get_max_retransmit :: "coap_session \<Rightarrow> lua_value list" where
  "l_coap_conn_get_max_retransmit sess = [LInt (ucast (max_retransmit sess))]"

definition l_coap_conn_set_max_retransmit ::
  "coap_session \<Rightarrow> lua_value list \<Rightarrow> coap_session \<times> (error + lua_value list)" where
  "l_coap_conn_set_max_retransmit sess args =
     (case luaL_checkinteger args 1 of
        Inl e \<Rightarrow> (sess, Inl e)
      | Inr n \<Rightarrow>
          (let max_retr = (ucast n :: uint32)
           in if \<not> (max_retr > 0) then (sess, Inl Aborted)
              else (sess\<lparr>max_retransmit := max_retr\<rparr>, Inr [])))"

definition l_coap_conn_get_ack_timeout :: "coap_session \<Rightarrow> lua_value list" where
  "l_coap_conn_get_ack_timeout sess =
     [LInt (1000 * ucast (integer_part (ack_timeout sess))
            + ucast (fractional_part (ack_timeout sess)))]"

definition l_coap_conn_set_ack_timeout ::
  "coap_session \<Rightarrow> lua_value list \<Rightarrow> coap_session \<times> (error + lua_value list)" where
  "l_coap_conn_set_ack_timeout sess args =
     (case luaL_checkinteger args 1 of
        Inl e \<Rightarrow> (sess, Inl e)
      | Inr n \<Rightarrow>
          (let timeout = (ucast n :: uint32)
           in if \<not> (timeout > 0) then (sess, Inl Aborted)
              else
                (let timeout_fp = \<lparr>integer_part = ucast (timeout div 1000),
                                   fractional_part = ucast (timeout mod 1000)\<rparr>
                 in (sess\<lparr>ack_timeout := timeout_fp\<rparr>, Inr []))))"

section \<open>The engine's option list\<close>

text \<open>
  Modelled from the spec: the option numbers are constants of the engine's header, which
  is not part of the repository; the spec delegates them to the standard CoAP
  specification, whose numbers (RFC 7252, 7641, 7959, 7967) are used here. They are
  \<open>int\<close> constants in the source.
\<close>

definition COAP_OPTION_IF_MATCH :: uint32 where "COAP_OPTION_IF_MATCH = 1"
definition COAP_OPTION_URI_HOST :: uint32 where "COAP_OPTION_URI_HOST = 3"
definition COAP_OPTION_ETAG :: uint32 where "COAP_OPTION_ETAG = 4"
definition COAP_OPTION_IF_NONE_MATCH :: uint32 where "COAP_OPTION_IF_NONE_MATCH = 5"
definition COAP_OPTION_OBSERVE :: uint32 where "COAP_OPTION_OBSERVE = 6"
definition COAP_OPTION_URI_PORT :: uint32 where "COAP_OPTION_URI_PORT = 7"
definition COAP_OPTION_LOCATION_PATH :: uint32 where "COAP_OPTION_LOCATION_PATH = 8"
definition COAP_OPTION_URI_PATH :: uint32 where "COAP_OPTION_URI_PATH = 11"
definition COAP_OPTION_CONTENT_FORMAT :: uint32 where "COAP_OPTION_CONTENT_FORMAT = 12"
definition COAP_OPTION_MAXAGE :: uint32 where "COAP_OPTION_MAXAGE = 14"
definition COAP_OPTION_URI_QUERY :: uint32 where "COAP_OPTION_URI_QUERY = 15"
definition COAP_OPTION_ACCEPT :: uint32 where "COAP_OPTION_ACCEPT = 17"
definition COAP_OPTION_LOCATION_QUERY :: uint32 where "COAP_OPTION_LOCATION_QUERY = 20"
definition COAP_OPTION_BLOCK2 :: uint32 where "COAP_OPTION_BLOCK2 = 23"
definition COAP_OPTION_BLOCK1 :: uint32 where "COAP_OPTION_BLOCK1 = 27"
definition COAP_OPTION_SIZE2 :: uint32 where "COAP_OPTION_SIZE2 = 28"
definition COAP_OPTION_PROXY_URI :: uint32 where "COAP_OPTION_PROXY_URI = 35"
definition COAP_OPTION_PROXY_SCHEME :: uint32 where "COAP_OPTION_PROXY_SCHEME = 39"
definition COAP_OPTION_SIZE1 :: uint32 where "COAP_OPTION_SIZE1 = 60"
definition COAP_OPTION_NORESPONSE :: uint32 where "COAP_OPTION_NORESPONSE = 258"

text \<open>
  The engine is an external collaborator; its calls are modelled by what the binding
  relies on. An option takes one header byte, up to two extension bytes each for the
  number delta and for the length, and its value. \<open>coap_add_option\<close> refuses an option
  number below the highest one added so far and an option that does not fit within the
  size allowed for the message; otherwise it appends the option. \<open>coap_add_data\<close>
  attaches a non-empty payload after a one-byte marker when it fits and leaves the
  message as it is otherwise (the binding ignores its result). \<open>coap_pdu_init\<close> gives an
  empty message, or nothing when the engine cannot allocate one (\<open>can_alloc\<close>).
\<close>

definition coap_opt_encode_size :: "nat \<Rightarrow> nat \<Rightarrow> nat" where
  "coap_opt_encode_size delta len =
     1 + (if delta < 13 then 0 else if delta < 269 then 1 else 2)
       + (if len < 13 then 0 else if len < 269 then 1 else 2) + len"

definition coap_add_option :: "coap_pdu \<Rightarrow> uint16 \<Rightarrow> byte list \<Rightarrow> coap_pdu option" where
  "coap_add_option p t v =
     (if t < pdu_max_delta p then None
      else
        (let optsize = coap_opt_encode_size (unat (t - pdu_max_delta p)) (length v)
         in if pdu_max_size p < pdu_used_size p + optsize then None
            else Some (p\<lparr>pdu_opts := pdu_opts p @ [(t, v)],
                         pdu_max_delta := t,
                         pdu_used_size := pdu_used_size p + optsize\<rparr>)))"

definition coap_add_data :: "coap_pdu \<Rightarrow> byte list \<Rightarrow> coap_pdu" where
  "coap_add_data p d =
     (if length d = 0 then p
      else if pdu_max_size p < pdu_used_size p + length d + 1 then p
      else p\<lparr>pdu_data := d, pdu_used_size := pdu_used_size p + length d + 1\<rparr>)"

definition coap_pdu_init :: "bool \<Rightarrow> byte \<Rightarrow> byte \<Rightarrow> uint16 \<Rightarrow> nat \<Rightarrow> coap_pdu option" where
  "coap_pdu_init can_alloc t c i sz =
     (if can_alloc then
        Some \<lparr>pdu_type = t, pdu_code = c, pdu_tid = i, pdu_token = [], pdu_opts = [],
              pdu_max_delta = 0, pdu_data = [], pdu_used_size = 0, pdu_max_size = sz\<rparr>
      else None)"

text \<open>
  The engine's option iterator: a cursor over the options of the message it was
  initialised on, with an optional filter of option numbers. \<open>coap_option_iterator_init\<close>
  returns no iterator (and marks the cursor bad) when nothing follows the token.
  \<open>coap_option_next\<close> delivers the next option that passes the filter; when none is
  left it marks the cursor bad and delivers nothing, then and ever after.
\<close>

record coap_opt_iterator_t =
  oi_bad :: bool
  oi_type :: uint16
  oi_filtered :: bool
  oi_filter :: "uint16 list"
  oi_next_option :: "(uint16 \<times> byte list) list"

definition coap_option_filter_set :: "uint16 list \<Rightarrow> uint16 \<Rightarrow> uint16 list" where
  "coap_option_filter_set flt t = (if t \<in> set flt then flt else flt @ [t])"

definition coap_option_iterator_init ::
  "coap_pdu \<Rightarrow> uint16 list option \<Rightarrow> coap_opt_iterator_t \<times> bool" where
  "coap_option_iterator_init p flt =
     (let oi = \<lparr>oi_bad = False, oi_type = 0, oi_filtered = False, oi_filter = [],
                oi_next_option = []\<rparr>
      in if pdu_opts p = [] \<and> pdu_data p = [] then (oi\<lparr>oi_bad := True\<rparr>, False)
         else
           (case flt of
              None \<Rightarrow> (oi\<lparr>oi_next_option := pdu_opts p\<rparr>, True)
            | Some f \<Rightarrow>
                (oi\<lparr>oi_next_option := pdu_opts p, oi_filtered := True, oi_filter := f\<rparr>,
                 True)))"

fun opt_scan ::
  "bool \<Rightarrow> uint16 list \<Rightarrow> (uint16 \<times> byte list) list
   \<Rightarrow> ((uint16 \<times> byte list) \<times> (uint16 \<times> byte list) list) option" where
  "opt_scan filtered flt [] = None"
| "opt_scan filtered flt (o1 # rest) =
     (if \<not> filtered \<or> fst o1 \<in> set flt then Some (o1, rest)
      else opt_scan filtered flt rest)"

definition coap_option_next ::
  "coap_opt_iterator_t \<Rightarrow> coap_opt_iterator_t \<times> byte list option" where
  "coap_option_next oi =
     (if oi_bad oi \<or> oi_next_option oi = [] then (oi\<lparr>oi_bad := True\<rparr>, None)
      else
        (case opt_scan (oi_filtered oi) (oi_filter oi) (oi_next_option oi) of
           None \<Rightarrow> (oi\<lparr>oi_bad := True, oi_next_option := []\<rparr>, None)
         | Some (o1, rest) \<Rightarrow> (oi\<lparr>oi_type := fst o1, oi_next_option := rest\<rparr>, Some (snd o1))))"

section \<open>Option codec\<close>

datatype coap_optval_type_t = OPTVAL_UNKNWN | OPTVAL_UINT | OPTVAL_STRING | OPTVAL_OPAQUE

definition get_coap_optval_type :: "uint32 \<Rightarrow> coap_optval_type_t" where
  "get_coap_optval_type opt_type =
     (if opt_type \<in> {COAP_OPTION_IF_NONE_MATCH, COAP_OPTION_OBSERVE, COAP_OPTION_URI_PORT,
                      COAP_OPTION_CONTENT_FORMAT, COAP_OPTION_MAXAGE, COAP_OPTION_ACCEPT,
                      COAP_OPTION_BLOCK2, COAP_OPTION_BLOCK1, COAP_OPTION_SIZE2,
                      COAP_OPTION_SIZE1, COAP_OPTION_NORESPONSE}
      then OPTVAL_UINT
      else if opt_type \<in> {COAP_OPTION_URI_HOST, COAP_OPTION_LOCATION_PATH,
                           COAP_OPTION_URI_PATH, COAP_OPTION_URI_QUERY,
                           COAP_OPTION_LOCATION_QUERY, COAP_OPTION_PROXY_URI,
                           COAP_OPTION_PROXY_SCHEME}
      then OPTVAL_STRING
      else if opt_type \<in> {COAP_OPTION_IF_MATCH, COAP_OPTION_ETAG}
      then OPTVAL_OPAQUE
      else OPTVAL_UNKNWN)"

text \<open>
  \<open>_push_coap_opt_val\<close>: an option without a value is pushed as nil; otherwise the raw
  value is accumulated big-endian into a \<open>uint32_t\<close>, pushed as a string, or pushed as
  a 1-based array of byte values, by the class of the option number.
\<close>

definition push_coap_opt_val :: "byte list \<Rightarrow> uint32 \<Rightarrow> lua_value" where
  "push_coap_opt_val opt_val opt_type =
     (if length opt_val = 0 then LNil
      else
        (case get_coap_optval_type opt_type of
           OPTVAL_UINT \<Rightarrow>
             LInt (ucast (foldl (\<lambda>v b. push_bit 8 v OR ucast b) (0 :: uint32) opt_val))
         | OPTVAL_STRING \<Rightarrow> LStr opt_val
         | OPTVAL_OPAQUE \<Rightarrow> LTable (map (\<lambda>b. LInt (ucast b)) opt_val)
         | OPTVAL_UNKNWN \<Rightarrow> LTable (map (\<lambda>b. LInt (ucast b)) opt_val)))"

text \<open>
  \<open>_coap_option_iter\<close>, the iteration function of the options iterator: nil when the
  cursor is bad or the engine delivers nothing, else the option number and its value.
\<close>

definition coap_option_iter ::
  "coap_opt_iterator_t \<Rightarrow> coap_opt_iterator_t \<times> lua_value list" where
  "coap_option_iter opt_iter =
     (if oi_bad opt_iter then (opt_iter, [LNil])
      else
        (case coap_option_next opt_iter of
           (oi', None) \<Rightarrow> (oi', [LNil])
         | (oi', Some opt) \<Rightarrow>
             (oi', [LInt (ucast (oi_type oi')), push_coap_opt_val opt (ucast (oi_type oi'))])))"

text \<open>
  \<open>l_coap_pdu_options\<close>: every argument must be an integer and is added to the filter;
  without arguments the iterator is not filtered. The iteration state is returned.
\<close>

fun options_filter :: "lua_value list \<Rightarrow> nat \<Rightarrow> uint16 list \<Rightarrow> error + uint16 list" where
  "options_filter args 0 flt = Inr flt"
| "options_filter args (Suc k) flt =
     (case options_filter args k flt of
        Inl e \<Rightarrow> Inl e
      | Inr f \<Rightarrow>
          (case luaL_checkinteger args (Suc k) of
             Inl e \<Rightarrow> Inl e
           | Inr n \<Rightarrow> Inr (coap_option_filter_set f (ucast (ucast n :: uint32)))))"

definition l_coap_pdu_options :: "ud_coap_pdu \<Rightarrow> lua_value list \<Rightarrow> error + coap_opt_iterator_t" where
  "l_coap_pdu_options ud args =
     (let n_args = length args
      in case options_filter args n_args [] of
           Inl e \<Rightarrow> Inl e
         | Inr flt \<Rightarrow>
             Inr (fst (coap_option_iterator_init (pdu ud)
                         (if n_args = 0 then None else Some flt))))"


text \<open>
  \<open>l_coap_pdu_set_option\<close>. The value bytes are built by the class of the option number
  (or, for an unknown number, by the Lua type of the argument): an integer is written
  as four bytes in network order and its leading zero bytes are cut while more than one
  byte is left; a string is taken as it is; a table of at most 255 numbers gives one
  byte per element. Without a value argument the option is empty.
\<close>

definition uint_network_order :: "uint32 \<Rightarrow> byte list" where
  "uint_network_order val_i =
     map (\<lambda>i. ucast (drop_bit (i * 8) val_i AND 0xff)) [3, 2, 1, 0]"

fun cut_leading_zeroes :: "byte list \<Rightarrow> byte list" where
  "cut_leading_zeroes [] = []"
| "cut_leading_zeroes (b # bs) =
     (if b = 0 \<and> length (b # bs) > 1 then cut_leading_zeroes bs else b # bs)"

fun bytes_array :: "lua_value list \<Rightarrow> error + byte list" where
  "bytes_array [] = Inr []"
| "bytes_array (x # xs) =
     (case x of
        LInt n \<Rightarrow> (case bytes_array xs of Inl e \<Rightarrow> Inl e | Inr bs \<Rightarrow> Inr (ucast n # bs))
      | _ \<Rightarrow> Inl InvalidArgument)"

definition luaL_checkstring :: "lua_value list \<Rightarrow> nat \<Rightarrow> error + byte list" where
  "luaL_checkstring args k =
     (case lua_arg args k of Some (LStr s) \<Rightarrow> Inr s | _ \<Rightarrow> Inl InvalidArgument)"

definition l_coap_pdu_set_option ::
  "ud_coap_pdu \<Rightarrow> lua_value list \<Rightarrow> ud_coap_pdu \<times> (error + lua_value list)" where
  "l_coap_pdu_set_option ud args =
     (case luaL_checkinteger args 1 of
        Inl e \<Rightarrow> (ud, Inl e)
      | Inr n \<Rightarrow>
          (let opt_type = (ucast n :: uint32);
               val =
                 (if 2 \<le> length args then
                    (let t0 = get_coap_optval_type opt_type;
                         optval_type =
                           (if t0 = OPTVAL_UNKNWN then
                              (case lua_type args 2 of
                                 LUA_TNUMBER \<Rightarrow> Inr OPTVAL_UINT
                               | LUA_TSTRING \<Rightarrow> Inr OPTVAL_STRING
                               | LUA_TTABLE \<Rightarrow> Inr OPTVAL_OPAQUE
                               | _ \<Rightarrow> Inl InvalidArgument)
                            else Inr t0)
                     in case optval_type of
                          Inl e \<Rightarrow> Inl e
                        | Inr OPTVAL_UINT \<Rightarrow>
                            (case luaL_checkinteger args 2 of
                               Inl e \<Rightarrow> Inl e
                             | Inr v \<Rightarrow> Inr (cut_leading_zeroes (uint_network_order (ucast v))))
                        | Inr OPTVAL_STRING \<Rightarrow> luaL_checkstring args 2
                        | Inr OPTVAL_OPAQUE \<Rightarrow>
                            (case lua_arg args 2 of
                               Some (LTable t) \<Rightarrow>
                                 if 255 < length t then Inl OptionTooLarge else bytes_array t
                             | _ \<Rightarrow> Inl InvalidArgument)
                        | Inr OPTVAL_UNKNWN \<Rightarrow> Inr [])
                  else Inr [])
           in case val of
                Inl e \<Rightarrow> (ud, Inl e)
              | Inr opt_val \<Rightarrow>
                  (case coap_add_option (pdu ud) (ucast opt_type) opt_val of
                     None \<Rightarrow> (ud, Inl OptionOrderViolation)
                   | Some p \<Rightarrow> (ud\<lparr>pdu := p\<rparr>, Inr []))))"

section \<open>URI path\<close>

lemma opt_scan_shorter:
  "opt_scan filtered flt xs = Some (o1, rest) \<Longrightarrow> length rest < length xs"
  by (induction xs) (auto split: if_splits)

lemma coap_option_next_shorter:
  "coap_option_next oi = (oi', Some v) \<Longrightarrow>
   length (oi_next_option oi') < length (oi_next_option oi)"
  by (auto simp: coap_option_next_def split: if_splits option.splits dest: opt_scan_shorter)

definition lua_toboolean :: "lua_value \<Rightarrow> bool" where
  "lua_toboolean v = (v \<noteq> LNil \<and> v \<noteq> LBool False)"







text \<open>
  \<open>l_coap_pdu_set_uri_path\<close>. For a string, \<open>b\<close> is the index where the current segment
  began (\<open>-1\<close> outside a segment); a segment ends at a slash or at the last byte and is
  added as one Uri-Path option. For a table, every element must be a string and is
  added as one Uri-Path option. A failed \<open>coap_add_option\<close> raises the error and keeps
  the options added before it.
\<close>

function set_uri_path_str ::
  "byte list \<Rightarrow> nat \<Rightarrow> int \<Rightarrow> coap_pdu \<Rightarrow> coap_pdu \<times> error option" where
  "set_uri_path_str uri i b p =
     (if i < length uri then
        (let b1 = (if b < 0 \<and> uri ! i \<noteq> 0x2F then int i else b)
         in if 0 \<le> b1 then
              (if uri ! i = 0x2F \<or> length uri \<le> i + 1 then
                 (let l = (if uri ! i = 0x2F then int i - b1 else int (length uri) - b1)
                  in case coap_add_option p (ucast COAP_OPTION_URI_PATH)
                            (take (nat l) (drop (nat b1) uri)) of
                       None \<Rightarrow> (p, Some OptionOrderViolation)
                     | Some p' \<Rightarrow> set_uri_path_str uri (i + 1) (- 1) p')
               else set_uri_path_str uri (i + 1) b1 p)
            else set_uri_path_str uri (i + 1) b1 p)
      else (p, None))"
  by pat_completeness auto
termination
  by (relation "measure (\<lambda>(uri, i, b, p). length uri - i)") auto

declare set_uri_path_str.simps [simp del]

fun set_uri_path_arr :: "lua_value list \<Rightarrow> coap_pdu \<Rightarrow> coap_pdu \<times> error option" where
  "set_uri_path_arr [] p = (p, None)"
| "set_uri_path_arr (x # xs) p =
     (case x of
        LStr s \<Rightarrow>
          (case coap_add_option p (ucast COAP_OPTION_URI_PATH) s of
             None \<Rightarrow> (p, Some OptionOrderViolation)
           | Some p' \<Rightarrow> set_uri_path_arr xs p')
      | _ \<Rightarrow> (p, Some InvalidArgument))"

definition l_coap_pdu_set_uri_path ::
  "ud_coap_pdu \<Rightarrow> lua_value list \<Rightarrow> ud_coap_pdu \<times> (error + lua_value list)" where
  "l_coap_pdu_set_uri_path ud args =
     (case lua_arg args 1 of
        Some (LStr uri) \<Rightarrow>
          (case set_uri_path_str uri 0 (- 1) (pdu ud) of
             (p, None) \<Rightarrow> (ud\<lparr>pdu := p\<rparr>, Inr [])
           | (p, Some e) \<Rightarrow> (ud\<lparr>pdu := p\<rparr>, Inl e))
      | Some (LTable t) \<Rightarrow>
          (case set_uri_path_arr t (pdu ud) of
             (p, None) \<Rightarrow> (ud\<lparr>pdu := p\<rparr>, Inr [])
           | (p, Some e) \<Rightarrow> (ud\<lparr>pdu := p\<rparr>, Inl e))
      | _ \<Rightarrow> (ud, Inl InvalidArgument))"

section \<open>Query string parameters\<close>

text \<open>
  \<open>isspace\<close> of the C locale: space, and horizontal tab to carriage return.
\<close>

definition isspace :: "byte \<Rightarrow> bool" where
  "isspace c = (c = 0x20 \<or> (0x09 \<le> c \<and> c \<le> 0x0D))"

text \<open>
  \<open>strtrim\<close> of \<open>common.c\<close>. The pointers \<open>s\<close> and \<open>e\<close> are indices into the string;
  \<open>e\<close> starts at the last byte, and the loop runs while \<open>s < e\<close>. The result is the
  bytes from \<open>s\<close> to \<open>e\<close>, or nothing when \<open>e < s\<close>.
\<close>

function strtrim_loop :: "byte list \<Rightarrow> int \<Rightarrow> int \<Rightarrow> int \<times> int" where
  "strtrim_loop str s e =
     (if s < e then
        (if isspace (str ! nat s) then strtrim_loop str (s + 1) e
         else if isspace (str ! nat e) then strtrim_loop str s (e - 1)
         else (s, e))
      else (s, e))"
  by pat_completeness auto
termination
  by (relation "measure (\<lambda>(str, s, e). nat (e - s))") auto

definition strtrim :: "byte list \<Rightarrow> byte list" where
  "strtrim str =
     (case strtrim_loop str 0 (int (length str) - 1) of
        (s, e) \<Rightarrow>
          (let len = (if s \<le> e then nat (e - s + 1) else 0)
           in take len (drop (nat s) str)))"

text \<open>
  \<open>_parse_next_coap_qstr_param\<close>: the name is what precedes the first \<open>=\<close> of the next
  Uri-Query option and the value what follows it; each is trimmed when it is not empty.
\<close>

fun name_length :: "byte list \<Rightarrow> nat" where
  "name_length [] = 0"
| "name_length (c # cs) = (if c = 0x3D then 0 else Suc (name_length cs))"

definition parse_next_coap_qstr_param ::
  "coap_opt_iterator_t \<Rightarrow> coap_opt_iterator_t \<times> (byte list \<times> byte list) option" where
  "parse_next_coap_qstr_param iter =
     (case coap_option_next iter of
        (iter', None) \<Rightarrow> (iter', None)
      | (iter', Some qstr) \<Rightarrow>
          (let name_len = name_length qstr;
               name0 = take name_len qstr;
               val0 = (if name_len < length qstr then drop (name_len + 1) qstr else []);
               name = (if length name0 \<noteq> 0 then strtrim name0 else name0);
               val = (if length val0 \<noteq> 0 then strtrim val0 else val0)
           in (iter', Some (name, val))))"

lemma parse_next_coap_qstr_param_shorter:
  "parse_next_coap_qstr_param iter = (iter', Some nv) \<Longrightarrow>
   length (oi_next_option iter') < length (oi_next_option iter)"
  by (auto simp: parse_next_coap_qstr_param_def Let_def split: prod.splits option.splits
           dest: coap_option_next_shorter)

text \<open>
  The part of the Lua state the iterator uses: the registry, where \<open>luaL_ref\<close> stores a
  value under a key that is not in use and \<open>luaL_unref\<close> releases a key, and the global
  variables. \<open>unref_calls\<close> records every key released, in order.
\<close>

record lua_State =
  registry :: "(int \<times> lua_value) list"
  globals :: "(string \<times> lua_value) list"
  unref_calls :: "int list"

definition LUA_NOREF :: int where "LUA_NOREF = - 2"
definition LUA_REFNIL :: int where "LUA_REFNIL = - 1"

definition luaL_ref :: "lua_State \<Rightarrow> lua_value \<Rightarrow> lua_State \<times> int" where
  "luaL_ref L v =
     (if v = LNil then (L, LUA_REFNIL)
      else
        (let r = foldr (\<lambda>kv m. max (fst kv + 1) m) (registry L) 1
         in (L\<lparr>registry := (r, v) # registry L\<rparr>, r)))"

definition luaL_unref :: "lua_State \<Rightarrow> int \<Rightarrow> lua_State" where
  "luaL_unref L r =
     (if 0 \<le> r then
        L\<lparr>registry := filter (\<lambda>kv. fst kv \<noteq> r) (registry L),
          unref_calls := unref_calls L @ [r]\<rparr>
      else L)"

text \<open>
  The iteration state of the query string parameters: the number of filter names, the
  registry keys of their copies (an array of \<open>MAX_QSTR_PARAMS_ARGS\<close> keys) and the
  engine's cursor over the Uri-Query options.
\<close>

definition MAX_QSTR_PARAMS_ARGS :: nat where "MAX_QSTR_PARAMS_ARGS = 10"

record coap_qstr_param_iter_state_t =
  n_refs :: nat
  refs :: "int list"
  iter :: coap_opt_iterator_t

fun unref_all :: "lua_State \<Rightarrow> int list \<Rightarrow> lua_State" where
  "unref_all L [] = L"
| "unref_all L (r # rs) = unref_all (luaL_unref L r) rs"

definition free_coap_qstr_param_iter_state ::
  "lua_State \<Rightarrow> coap_qstr_param_iter_state_t \<Rightarrow> lua_State \<times> coap_qstr_param_iter_state_t" where
  "free_coap_qstr_param_iter_state L iter_state =
     (unref_all L (take (n_refs iter_state) (refs iter_state)), iter_state\<lparr>n_refs := 0\<rparr>)"

text \<open>
  The filter loop of \<open>_coap_qstr_param_iter\<close>: the name passes when one of the retained
  filter names has its length and its bytes.
\<close>

fun name_in_filter :: "lua_State \<Rightarrow> int list \<Rightarrow> byte list \<Rightarrow> bool" where
  "name_in_filter L [] name = False"
| "name_in_filter L (r # rs) name =
     (if map_of (registry L) r = Some (LStr name) then True else name_in_filter L rs name)"

text \<open>
  \<open>_coap_qstr_param_iter\<close>, the iteration function. When the cursor is bad or no option
  is left it frees the state and returns nil; a parameter with an empty name or one
  that the filter rejects is passed over; otherwise the name and the value (nil when
  empty) are returned.
\<close>

function coap_qstr_param_iter ::
  "lua_State \<Rightarrow> coap_qstr_param_iter_state_t
   \<Rightarrow> lua_State \<times> coap_qstr_param_iter_state_t \<times> lua_value list" where
  "coap_qstr_param_iter L iter_state =
     (if oi_bad (iter iter_state) then
        (case free_coap_qstr_param_iter_state L iter_state of
           (L', st') \<Rightarrow> (L', st', [LNil]))
      else
        (case parse_next_coap_qstr_param (iter iter_state) of
           (it', None) \<Rightarrow>
             (case free_coap_qstr_param_iter_state L (iter_state\<lparr>iter := it'\<rparr>) of
                (L', st') \<Rightarrow> (L', st', [LNil]))
         | (it', Some (name, val)) \<Rightarrow>
             (let st1 = iter_state\<lparr>iter := it'\<rparr>
              in if length name = 0 then coap_qstr_param_iter L st1
                 else
                   (let found =
                          (n_refs st1 = 0
                           \<or> name_in_filter L (take (n_refs st1) (refs st1)) name)
                    in if \<not> found then coap_qstr_param_iter L st1
                       else
                         (L, st1,
                          [LStr name, if 0 < length val then LStr val else LNil])))))"
  by pat_completeness auto
termination
  by (relation "measure (\<lambda>(L, st). length (oi_next_option (iter st)))")
     (auto dest: parse_next_coap_qstr_param_shorter [OF sym])

declare coap_qstr_param_iter.simps [simp del]

text \<open>
  \<open>l_coap_pdu_qstr_params\<close>: more than ten arguments are refused, every argument must
  be a string, and a reference to each is kept in the iteration state, whose cursor is
  filtered to Uri-Query.
\<close>

fun check_strings :: "lua_value list \<Rightarrow> nat \<Rightarrow> error option" where
  "check_strings args 0 = None"
| "check_strings args (Suc k) =
     (case check_strings args k of
        Some e \<Rightarrow> Some e
      | None \<Rightarrow> (case luaL_checkstring args (Suc k) of Inl e \<Rightarrow> Some e | Inr s \<Rightarrow> None))"

fun ref_args ::
  "lua_State \<Rightarrow> lua_value list \<Rightarrow> nat \<Rightarrow> coap_qstr_param_iter_state_t
   \<Rightarrow> lua_State \<times> coap_qstr_param_iter_state_t" where
  "ref_args L args 0 st = (L, st)"
| "ref_args L args (Suc k) st =
     (case ref_args L args k st of
        (L1, st1) \<Rightarrow>
          (case luaL_ref L1 (args ! k) of
             (L2, r) \<Rightarrow> (L2, st1\<lparr>refs := (refs st1)[k := r], n_refs := n_refs st1 + 1\<rparr>)))"

definition l_coap_pdu_qstr_params ::
  "lua_State \<Rightarrow> ud_coap_pdu \<Rightarrow> lua_value list
   \<Rightarrow> lua_State \<times> (error + coap_qstr_param_iter_state_t)" where
  "l_coap_pdu_qstr_params L ud args =
     (let flt = coap_option_filter_set [] (ucast COAP_OPTION_URI_QUERY);
          n_args = length args
      in if MAX_QSTR_PARAMS_ARGS < n_args then (L, Inl TooManyFilterArgs)
         else
           (case check_strings args n_args of
              Some e \<Rightarrow> (L, Inl e)
            | None \<Rightarrow>
                (let st0 = \<lparr>n_refs = 0, refs = replicate MAX_QSTR_PARAMS_ARGS 0,
                           iter = \<lparr>oi_bad = False, oi_type = 0, oi_filtered = False,
                                   oi_filter = [], oi_next_option = []\<rparr>\<rparr>
                 in case ref_args L args n_args st0 of
                      (L', st) \<Rightarrow>
                        (L', Inr (st\<lparr>iter :=
                                     fst (coap_option_iterator_init (pdu ud) (Some flt))\<rparr>)))))"

text \<open>
  \<open>l_coap_pdu_get_qstr_param\<close>: the value of the first parameter with the given name and
  \<open>true\<close>, or nil and \<open>false\<close>; parameters with an empty name are passed over.
\<close>

function get_qstr_param_loop :: "coap_opt_iterator_t \<Rightarrow> byte list \<Rightarrow> lua_value list" where
  "get_qstr_param_loop oi qstr_param =
     (case parse_next_coap_qstr_param oi of
        (oi', None) \<Rightarrow> [LNil, LBool False]
      | (oi', Some (name, val)) \<Rightarrow>
          if length name = 0 then get_qstr_param_loop oi' qstr_param
          else if \<not> (length qstr_param = length name \<and> name = qstr_param)
          then get_qstr_param_loop oi' qstr_param
          else [if 0 < length val then LStr val else LNil, LBool True])"
  by pat_completeness auto
termination
  by (relation "measure (\<lambda>(oi, q). length (oi_next_option oi))")
     (auto dest: parse_next_coap_qstr_param_shorter [OF sym])

declare get_qstr_param_loop.simps [simp del]

definition l_coap_pdu_get_qstr_param ::
  "ud_coap_pdu \<Rightarrow> lua_value list \<Rightarrow> error + lua_value list" where
  "l_coap_pdu_get_qstr_param ud args =
     (let flt = coap_option_filter_set [] (ucast COAP_OPTION_URI_QUERY)
      in case luaL_checkstring args 1 of
           Inl e \<Rightarrow> Inl e
         | Inr qstr_param \<Rightarrow>
             (case coap_option_iterator_init (pdu ud) (Some flt) of
                (oi, ok) \<Rightarrow>
                  if \<not> ok then Inr [LNil, LBool False]
                  else Inr (get_qstr_param_loop oi qstr_param)))"

section \<open>Message objects: dispatch, send and lock\<close>

text \<open>
  Modelled from the spec: \<open>COAP_RESPONSE_CODE\<close> and the message type and request
  method constants are macros of the engine's header, which is not part of the
  repository. A code is written \<open>class.detail\<close> (2.05 as 205); the macro is
  \<open>((N)/100 << 5) | (N)%100\<close> on \<open>int\<close>, with C's truncating division.
\<close>

definition COAP_RESPONSE_CODE :: "uint32 \<Rightarrow> uint32" where
  "COAP_RESPONSE_CODE N = word_of_int (push_bit 5 (sint N sdiv 100) OR (sint N smod 100))"

definition COAP_MESSAGE_CON :: byte where "COAP_MESSAGE_CON = 0"
definition COAP_MESSAGE_NON :: byte where "COAP_MESSAGE_NON = 1"
definition COAP_MESSAGE_ACK :: byte where "COAP_MESSAGE_ACK = 2"
definition COAP_MESSAGE_RST :: byte where "COAP_MESSAGE_RST = 3"

definition COAP_REQUEST_GET :: byte where "COAP_REQUEST_GET = 1"
definition COAP_REQUEST_POST :: byte where "COAP_REQUEST_POST = 2"
definition COAP_REQUEST_PUT :: byte where "COAP_REQUEST_PUT = 3"
definition COAP_REQUEST_DELETE :: byte where "COAP_REQUEST_DELETE = 4"
definition COAP_REQUEST_FETCH :: byte where "COAP_REQUEST_FETCH = 5"
definition COAP_REQUEST_PATCH :: byte where "COAP_REQUEST_PATCH = 6"
definition COAP_REQUEST_IPATCH :: byte where "COAP_REQUEST_IPATCH = 7"

definition COAP_INVALID_TID :: int where "COAP_INVALID_TID = - 1"

text \<open>
  What the binding prints and hands to the engine, in order: log lines with their
  message, the PDU dumps of \<open>_log_pdu\<close> (handler name, PDU, received or not), and the
  messages passed to \<open>coap_send\<close>.
\<close>

datatype event =
    Log_error string
  | Log_warn string
  | Log_info string
  | Log_pdu string coap_pdu bool
  | Coap_send coap_session coap_pdu

text \<open>
  The engine, where the binding depends on how a call turns out: the result of
  \<open>coap_send\<close> (a transaction id, or \<open>COAP_INVALID_TID\<close>) and whether \<open>coap_pdu_init\<close>
  can allocate.
\<close>

record engine =
  coap_send :: "coap_session \<Rightarrow> coap_pdu \<Rightarrow> int"
  can_alloc :: bool

record lib_ctx_t =
  max_pdu_sz :: nat
  reqh :: int
  resph :: int
  nackh :: int

record ud_connection =
  conn_session :: coap_session
  gc :: bool

text \<open>The method tables of \<open>_pdu_obj_dispacher\<close> and the search \<open>_get_func\<close>.\<close>

datatype lua_CFunction =
    F_coap_pdu_get_type | F_coap_pdu_get_code | F_coap_pdu_get_msg_id
  | F_coap_pdu_get_token | F_coap_pdu_options | F_coap_pdu_get_option
  | F_coap_pdu_get_uri_path | F_coap_pdu_qstr_params | F_coap_pdu_get_qstr_param
  | F_coap_pdu_get_payload
  | F_coap_pdu_set_type | F_coap_pdu_set_code | F_coap_pdu_set_msg_id
  | F_coap_pdu_set_token | F_coap_pdu_set_option | F_coap_pdu_set_uri_path
  | F_coap_pdu_get_connection
  | F_coap_pdu_send_reqh

text \<open>
  The name arrives as a C string and is compared with \<open>strcmp\<close>, which reads both
  strings up to their first NUL byte: \<open>c_string\<close> is the part of a Lua string that C
  sees.
\<close>

definition c_string :: "string \<Rightarrow> string" where
  "c_string s = takeWhile (\<lambda>c. c \<noteq> CHR 0x00) s"

fun get_func :: "string \<Rightarrow> (string \<times> lua_CFunction) list \<Rightarrow> lua_CFunction option" where
  "get_func fname [] = None"
| "get_func fname (nf # funcs) =
     (if c_string (fst nf) = c_string fname then Some (snd nf) else get_func fname funcs)"

definition r_funcs :: "(string \<times> lua_CFunction) list" where
  "r_funcs =
     [(''get_type'', F_coap_pdu_get_type),
      (''get_code'', F_coap_pdu_get_code),
      (''get_msg_id'', F_coap_pdu_get_msg_id),
      (''get_token'', F_coap_pdu_get_token),
      (''options'', F_coap_pdu_options),
      (''get_option'', F_coap_pdu_get_option),
      (''get_uri_path'', F_coap_pdu_get_uri_path),
      (''qstr_params'', F_coap_pdu_qstr_params),
      (''get_qstr_param'', F_coap_pdu_get_qstr_param),
      (''get_payload'', F_coap_pdu_get_payload)]"

definition w_funcs :: "(string \<times> lua_CFunction) list" where
  "w_funcs =
     [(''set_type'', F_coap_pdu_set_type),
      (''set_code'', F_coap_pdu_set_code),
      (''set_msg_id'', F_coap_pdu_set_msg_id),
      (''set_token'', F_coap_pdu_set_token),
      (''set_option'', F_coap_pdu_set_option),
      (''set_uri_path'', F_coap_pdu_set_uri_path)]"

definition r_cmnh_funcs :: "(string \<times> lua_CFunction) list" where
  "r_cmnh_funcs = [(''get_connection'', F_coap_pdu_get_connection)]"

definition w_reqh_funcs :: "(string \<times> lua_CFunction) list" where
  "w_reqh_funcs = [(''send'', F_coap_pdu_send_reqh)]"

definition null_funcs :: "(string \<times> lua_CFunction) list" where
  "null_funcs = []"

text \<open>
  \<open>_pdu_obj_dispacher\<close>, the \<open>__index\<close> metamethod of a message object: every method of
  the object is looked up here by name. A locked object raises an error before any
  table is searched; otherwise the read tables, then (unless the object is read-only)
  the write tables are searched, and a name that is not found is an invalid method.
\<close>

definition pdu_obj_dispacher :: "ud_coap_pdu \<Rightarrow> string \<Rightarrow> error + lua_CFunction" where
  "pdu_obj_dispacher ud_pdu fname =
     (if lck (access ud_pdu) then Inl ObjectLocked
      else
        (case get_func fname r_funcs of
           Some f \<Rightarrow> Inr f
         | None \<Rightarrow>
             (case (if hndlr (access ud_pdu) \<in> {ACS_REQ_HNDLR, ACS_RESP_HNDLR, ACS_NACK_HNDLR}
                    then get_func fname r_cmnh_funcs else None) of
                Some f \<Rightarrow> Inr f
              | None \<Rightarrow>
                  if ro (access ud_pdu) then Inl InvalidMethod
                  else
                    (case get_func fname w_funcs of
                       Some f \<Rightarrow> Inr f
                     | None \<Rightarrow>
                         (case (if hndlr (access ud_pdu) = ACS_REQ_HNDLR
                                then get_func fname w_reqh_funcs
                                else if hndlr (access ud_pdu) \<in> {ACS_RESP_HNDLR, ACS_NACK_HNDLR}
                                then get_func fname null_funcs
                                else None) of
                            Some f \<Rightarrow> Inr f
                          | None \<Rightarrow> Inl InvalidMethod)))))"

text \<open>
  \<open>_set_payload\<close>: a string or a table of numbers at position \<open>arg\<close> is attached as the
  payload; any other value there is an error; no value there attaches nothing.
\<close>

definition set_payload :: "coap_pdu \<Rightarrow> lua_value list \<Rightarrow> nat \<Rightarrow> error + coap_pdu" where
  "set_payload p args arg =
     (case lua_arg args arg of
        Some (LStr s) \<Rightarrow> Inr (coap_add_data p s)
      | Some (LTable t) \<Rightarrow>
          (case bytes_array t of Inl e \<Rightarrow> Inl e | Inr d \<Rightarrow> Inr (coap_add_data p d))
      | Some _ \<Rightarrow> Inl InvalidArgument
      | None \<Rightarrow> Inr (coap_add_data p []))"

text \<open>
  \<open>l_coap_pdu_send_reqh\<close>, the \<open>send\<close> of a response object in a request handler: an
  optional code, the default code when the code is still empty, the payload, and then
  the lock. An error of \<open>_set_payload\<close> leaves the method before the lock is set.
\<close>

definition l_coap_pdu_send_reqh ::
  "ud_coap_pdu \<Rightarrow> lua_value list \<Rightarrow> ud_coap_pdu \<times> (error + lua_value list) \<times> event list" where
  "l_coap_pdu_send_reqh ud_pdu args =
     (let p0 = pdu ud_pdu;
          has_code = (lua_type args 1 = LUA_TNUMBER);
          p1 = (case lua_arg args 1 of
                  Some (LInt n) \<Rightarrow> p0\<lparr>pdu_code := ucast (COAP_RESPONSE_CODE (ucast n))\<rparr>
                | _ \<Rightarrow> p0);
          arg = (if has_code then 2 else 1);
          p2 = (if pdu_code p1 = 0
                then p1\<lparr>pdu_code := ucast (COAP_RESPONSE_CODE (def_code ud_pdu))\<rparr> else p1);
          ev = (if pdu_code p1 = 0
                then [Log_info ''CoAP code not provided for a message being sent; using %d'']
                else [])
      in case set_payload p2 args arg of
           Inl e \<Rightarrow> (ud_pdu\<lparr>pdu := p2\<rparr>, Inl e, ev)
         | Inr p3 \<Rightarrow>
             (ud_pdu\<lparr>pdu := p3, access := (access ud_pdu)\<lparr>lck := True\<rparr>\<rparr>, Inr [], ev))"

text \<open>
  \<open>l_coap_conn_send\<close>, the \<open>send\<close> of a connection object. \<open>ud_pdu\<close> is the message
  object given as first argument and \<open>args\<close> are the arguments after it, so the payload
  of \<open>arg_base + 2\<close> is at position 1.
\<close>

definition l_coap_conn_send ::
  "engine \<Rightarrow> ud_connection \<Rightarrow> ud_coap_pdu \<Rightarrow> lua_value list
   \<Rightarrow> ud_coap_pdu \<times> (error + lua_value list) \<times> event list" where
  "l_coap_conn_send eng ud_conn ud_pdu args =
     (if hndlr (access ud_pdu) \<noteq> ACS_NO_HNDLR then (ud_pdu, Inl WrongSendPath, [])
      else
        (case set_payload (pdu ud_pdu) args 1 of
           Inl e \<Rightarrow> (ud_pdu, Inl e, [])
         | Inr p \<Rightarrow>
             (ud_pdu\<lparr>pdu := p, access := (access ud_pdu)\<lparr>lck := True\<rparr>\<rparr>,
              Inr [],
              [Log_pdu ''new'' p False, Coap_send (conn_session ud_conn) p]
              @ (if coap_send eng (conn_session ud_conn) p = COAP_INVALID_TID
                 then [Log_error ''coap_send() failed''] else []))))"

text \<open>
  \<open>l_coap_new_msg\<close>: type, code and message id are read as \<open>int\<close> and cut to the widths
  of the PDU header; the new object has no handler and all access bits clear.
\<close>

definition l_coap_new_msg ::
  "engine \<Rightarrow> lib_ctx_t \<Rightarrow> lua_value list \<Rightarrow> error + ud_coap_pdu" where
  "l_coap_new_msg eng lib_ctx args =
     (case luaL_checkinteger args 1 of
        Inl e \<Rightarrow> Inl e
      | Inr t \<Rightarrow>
          (case luaL_checkinteger args 2 of
             Inl e \<Rightarrow> Inl e
           | Inr c \<Rightarrow>
               (case luaL_checkinteger args 3 of
                  Inl e \<Rightarrow> Inl e
                | Inr i \<Rightarrow>
                    (case coap_pdu_init (can_alloc eng) (ucast (ucast t :: uint32))
                            (ucast (COAP_RESPONSE_CODE (ucast c)))
                            (ucast (ucast i :: uint32)) (max_pdu_sz lib_ctx) of
                       None \<Rightarrow> Inl EngineFailure
                     | Some p \<Rightarrow>
                         Inr \<lparr>pdu = p, session = None, def_code = 0,
                              access = \<lparr>ro = False, lck = False, hndlr = ACS_NO_HNDLR\<rparr>\<rparr>))))"

section \<open>Handler dispatch\<close>

definition REQ_HANDLER :: string where "REQ_HANDLER = ''coap_req_handler''"
definition RESP_HANDLER :: string where "RESP_HANDLER = ''coap_resp_handler''"
definition NACK_HANDLER :: string where "NACK_HANDLER = ''coap_nack_handler''"

definition get_coap_resp_code :: "byte \<Rightarrow> uint32" where
  "get_coap_resp_code req_code =
     (if req_code = COAP_REQUEST_GET then 205
      else if req_code = COAP_REQUEST_POST then 204
      else if req_code = COAP_REQUEST_PUT then 201
      else if req_code = COAP_REQUEST_DELETE then 202
      else if req_code = COAP_REQUEST_FETCH then 205
      else if req_code = COAP_REQUEST_PATCH then 204
      else if req_code = COAP_REQUEST_IPATCH then 204
      else 0)"

text \<open>
  The handler a bridge function calls: the registered reference when there is one, else
  the global of the default name when it is a function, else none.
\<close>

definition push_hndlr :: "lua_State \<Rightarrow> int \<Rightarrow> string \<Rightarrow> lua_value option" where
  "push_hndlr L ref name =
     (if ref \<noteq> LUA_NOREF then
        (case map_of (registry L) ref of Some v \<Rightarrow> Some v | None \<Rightarrow> Some LNil)
      else
        (case map_of (globals L) name of
           Some (LFunction f) \<Rightarrow> Some (LFunction f)
         | _ \<Rightarrow> None))"

text \<open>
  The two objects \<open>_coap_req_hndlr\<close> hands to the request handler: the request, read
  only, and the response, writable, with the default code of the request's method.
\<close>

definition req_hndlr_ud_req :: "coap_session \<Rightarrow> coap_pdu \<Rightarrow> ud_coap_pdu" where
  "req_hndlr_ud_req sess request =
     \<lparr>pdu = request, session = Some sess, def_code = 0,
      access = \<lparr>ro = True, lck = False, hndlr = ACS_REQ_HNDLR\<rparr>\<rparr>"

definition req_hndlr_ud_resp :: "coap_session \<Rightarrow> coap_pdu \<Rightarrow> coap_pdu \<Rightarrow> ud_coap_pdu" where
  "req_hndlr_ud_resp sess request response =
     \<lparr>pdu = response, session = Some sess,
      def_code = get_coap_resp_code (pdu_code request),
      access = \<lparr>ro = False, lck = False, hndlr = ACS_REQ_HNDLR\<rparr>\<rparr>"

text \<open>
  \<open>_coap_resp_hndlr\<close>. \<open>lua_call\<close> stands for the interpreter running the handler on
  the two objects: it raises an error or returns the handler's results, of which the
  bridge asks for one (a missing result is nil). \<open>resp_hndlr_ack\<close> is the check of the
  returned value: a boolean is taken as \<open>handle_ack\<close>, nil leaves it at 1, anything else
  leaves it at 1 and logs a warning. After that (or at once, when no handler is found)
  an ACK with the message id of the received message is initialised and sent when
  \<open>handle_ack\<close> is set and the received message is confirmable.
\<close>

definition resp_hndlr_ack :: "lua_value list \<Rightarrow> bool \<times> event list" where
  "resp_hndlr_ack results =
     (let ret = (case results of [] \<Rightarrow> LNil | r # rs \<Rightarrow> r);
          ret_type = type_of_value ret
      in if ret_type = LUA_TBOOLEAN then (lua_toboolean ret, [])
         else if ret_type \<noteq> LUA_TNIL then
           (True, [Log_warn (''Ignoring invalid type [id: %d] returned by the CoAP response ''
                             @ ''handler; boolean or nothing expected'')])
         else (True, []))"

definition resp_hndlr_finish ::
  "engine \<Rightarrow> coap_session \<Rightarrow> coap_pdu \<Rightarrow> bool \<Rightarrow> event list" where
  "resp_hndlr_finish eng sess received handle_ack =
     (if handle_ack \<and> pdu_type received = COAP_MESSAGE_CON then
        (case coap_pdu_init (can_alloc eng) COAP_MESSAGE_ACK 0 (pdu_tid received) 0 of
           None \<Rightarrow> [Log_error ''coap_send() failed'']
         | Some ack \<Rightarrow>
             [Log_pdu ''resph'' ack False, Coap_send sess ack]
             @ (if coap_send eng sess ack = COAP_INVALID_TID
                then [Log_error ''coap_send() failed''] else []))
      else [])"

definition coap_resp_hndlr ::
  "engine \<Rightarrow> (lua_value \<Rightarrow> ud_coap_pdu \<Rightarrow> ud_coap_pdu \<Rightarrow> error + lua_value list)
   \<Rightarrow> lua_State \<Rightarrow> lib_ctx_t \<Rightarrow> coap_session \<Rightarrow> coap_pdu \<Rightarrow> coap_pdu
   \<Rightarrow> event list \<times> error option" where
  "coap_resp_hndlr eng lua_call L lib_ctx sess sent received =
     (let ev0 = [Log_pdu ''resph'' received True]
      in case push_hndlr L (resph lib_ctx) RESP_HANDLER of
           None \<Rightarrow> (ev0 @ resp_hndlr_finish eng sess received True, None)
         | Some h \<Rightarrow>
             (let ud_sent = \<lparr>pdu = sent, session = Some sess, def_code = 0,
                             access = \<lparr>ro = True, lck = False, hndlr = ACS_RESP_HNDLR\<rparr>\<rparr>;
                  ud_rcvd = \<lparr>pdu = received, session = Some sess, def_code = 0,
                             access = \<lparr>ro = True, lck = False, hndlr = ACS_RESP_HNDLR\<rparr>\<rparr>
              in case lua_call h ud_sent ud_rcvd of
                   Inl e \<Rightarrow> (ev0, Some e)
                 | Inr results \<Rightarrow>
                     (case resp_hndlr_ack results of
                        (handle_ack, ev1) \<Rightarrow>
                          (ev0 @ ev1 @ resp_hndlr_finish eng sess received handle_ack, None))))"

section \<open>Objects used in the examples\<close>

text \<open>
  An empty message of the default maximum size, the object \<open>new_msg(0, 1, 1)\<close> returns
  for it, a session, and the response object of a request handler for a GET request.
\<close>

definition empty_pdu :: coap_pdu where
  "empty_pdu =
     \<lparr>pdu_type = 0, pdu_code = 1, pdu_tid = 1, pdu_token = [], pdu_opts = [],
      pdu_max_delta = 0, pdu_data = [], pdu_used_size = 0, pdu_max_size = 1152\<rparr>"

definition fresh_msg :: ud_coap_pdu where
  "fresh_msg =
     \<lparr>pdu = empty_pdu, session = None, def_code = 0,
      access = \<lparr>ro = False, lck = False, hndlr = ACS_NO_HNDLR\<rparr>\<rparr>"

definition a_session :: coap_session where
  "a_session = \<lparr>max_retransmit = 4, ack_timeout = \<lparr>integer_part = 2, fractional_part = 0\<rparr>\<rparr>"

definition resp_msg :: ud_coap_pdu where
  "resp_msg = req_hndlr_ud_resp a_session empty_pdu (empty_pdu\<lparr>pdu_type := 2, pdu_code := 0\<rparr>)"

lemma new_msg_fresh_msg:
  "l_coap_new_msg \<lparr>coap_send = snd_res, can_alloc = True\<rparr>
     \<lparr>max_pdu_sz = 1152, reqh = LUA_NOREF, resph = LUA_NOREF, nackh = LUA_NOREF\<rparr>
     [LInt 0, LInt 1, LInt 1] = Inr fresh_msg"
  by (simp add: l_coap_new_msg_def luaL_checkinteger_def lua_arg_def coap_pdu_init_def
        COAP_RESPONSE_CODE_def signed_divide_int_def signed_modulo_int_def
        fresh_msg_def empty_pdu_def ACS_NO_HNDLR_def)

section \<open>Message id: truncation to 16 bits\<close>

lemma uint_ucast_64_16: "uint (ucast (m :: lua_Integer) :: uint16) = sint m mod 2 ^ 16"
proof -
  have "sint m mod 2 ^ 16 = take_bit 16 (sint m)" by (simp add: take_bit_eq_mod)
  also have "\<dots> = take_bit 16 (signed_take_bit 63 (uint m))" by (simp add: sint_uint)
  also have "\<dots> = take_bit 16 (uint m)" by (simp add: take_bit_signed_take_bit)
  finally show ?thesis by (simp add: unsigned_ucast_eq)
qed

lemma ucast_64_32_16: "(ucast (ucast (m :: lua_Integer) :: uint32) :: uint16) = ucast m"
  by (rule bit_word_eqI) (auto simp: bit_simps)

lemma sint_ucast_16_64: "sint (ucast (w :: uint16) :: lua_Integer) = uint w"
proof -
  have lt: "uint w < 2 ^ 16" using uint_bounded [of w] by simp
  have "uint (ucast w :: lua_Integer) = uint w"
    using lt by (simp add: unsigned_ucast_eq take_bit_int_eq_self)
  moreover have "signed_take_bit 63 (uint w) = uint w"
  proof (rule signed_take_bit_int_eq_self)
    have "- (2 ^ 63) \<le> (0::int)" by simp
    also have "\<dots> \<le> uint w" by (rule uint_ge_0)
    finally show "- (2 ^ 63) \<le> uint w" .
    have "uint w < 2 ^ 16" by (rule lt)
    also have "\<dots> < (2::int) ^ 63" by simp
    finally show "uint w < 2 ^ 63" .
  qed
  ultimately show ?thesis by (simp add: sint_uint)
qed

text \<open>
  C10. For every Lua integer \<open>m\<close>, \<open>set_msg_id(m)\<close> returns without an error, and
  \<open>get_msg_id()\<close> after it returns the integer \<open>m mod 2^16\<close>: the id is cut to its low 16
  bits. (\<open>sint\<close> reads a Lua integer as the number it stands for.)
\<close>

theorem set_get_msg_id_low_16_bits:
  "snd (l_coap_pdu_set_msg_id ud [LInt m]) = Inr []
   \<and> (\<exists>v. l_coap_pdu_get_msg_id (fst (l_coap_pdu_set_msg_id ud [LInt m])) = [LInt v]
          \<and> sint v = sint m mod 2 ^ 16)"
  by (simp add: l_coap_pdu_set_msg_id_def l_coap_pdu_get_msg_id_def luaL_checkinteger_def
        lua_arg_def ucast_64_32_16 sint_ucast_16_64 uint_ucast_64_16)

theorem set_get_msg_id_low_16_bits_witness:
  "snd (l_coap_pdu_set_msg_id fresh_msg [LInt 70000]) = Inr []
   \<and> l_coap_pdu_get_msg_id (fst (l_coap_pdu_set_msg_id fresh_msg [LInt 70000])) = [LInt 4464]"
  using set_get_msg_id_low_16_bits [of fresh_msg 70000]
  by (simp add: l_coap_pdu_set_msg_id_def l_coap_pdu_get_msg_id_def luaL_checkinteger_def
        lua_arg_def)

section \<open>Connection settings: the positivity check\<close>

lemma ucast_minus_1_64_32: "(ucast (- 1 :: lua_Integer) :: uint32) = 4294967295"
proof -
  have "(ucast (- 1 :: lua_Integer) :: uint32) = - 1"
    by (rule bit_word_eqI) (simp add: bit_simps)
  then show ?thesis by simp
qed

lemma set_max_retransmit_zero_aborts:
  "l_coap_conn_set_max_retransmit sess [LInt 0] = (sess, Inl Aborted)"
  by (simp add: l_coap_conn_set_max_retransmit_def luaL_checkinteger_def lua_arg_def)

lemma set_ack_timeout_zero_aborts:
  "l_coap_conn_set_ack_timeout sess [LInt 0] = (sess, Inl Aborted)"
  by (simp add: l_coap_conn_set_ack_timeout_def luaL_checkinteger_def lua_arg_def)

lemma ucast_32_64_32: "(ucast (ucast (v :: uint32) :: lua_Integer) :: uint32) = v"
  by (rule bit_word_eqI) (auto simp: bit_simps)

text \<open>
  Values in range are stored and read back: any non-zero \<open>unsigned\<close> for the
  retransmission count, and a timeout below 65536000 milliseconds, whose seconds fit the
  16 bits of the fixed point's integer part.
\<close>

lemma set_get_max_retransmit:
  "v \<noteq> 0 \<Longrightarrow>
   l_coap_conn_set_max_retransmit sess [LInt (ucast v)] = (sess\<lparr>max_retransmit := v\<rparr>, Inr [])
   \<and> l_coap_conn_get_max_retransmit (sess\<lparr>max_retransmit := v\<rparr>) = [LInt (ucast v)]"
  by (simp add: l_coap_conn_set_max_retransmit_def l_coap_conn_get_max_retransmit_def
        luaL_checkinteger_def lua_arg_def ucast_32_64_32 word_greater_zero_iff)

lemma fixed_point_value:
  fixes v :: uint32
  assumes "v < 65536000"
  shows "1000 * ucast (ucast (v div 1000) :: uint16) + ucast (ucast (v mod 1000) :: uint16)
         = (ucast v :: lua_Integer)"
proof -
  have v: "unat v < 65536000" using assms by (simp add: word_less_nat_alt)
  have q: "unat (v div 1000) = unat v div 1000" by (simp add: unat_div)
  have r: "unat (v mod 1000) = unat v mod 1000" by (simp add: unat_mod)
  have q16: "unat (ucast (v div 1000) :: uint16) = unat v div 1000"
    using v q by (simp add: unsigned_ucast_eq take_bit_nat_eq_self)
  have r16: "unat (ucast (v mod 1000) :: uint16) = unat v mod 1000"
  proof -
    have "unat v mod 1000 < 2 ^ 16" by (rule less_trans [of _ 1000]) simp_all
    then show ?thesis using r by (simp add: unsigned_ucast_eq take_bit_nat_eq_self)
  qed
  have a: "(ucast (ucast (v div 1000) :: uint16) :: lua_Integer) = of_nat (unat v div 1000)"
    using of_nat_unat [of "ucast (v div 1000) :: uint16", where ?'a = lua_Integer]
    by (simp add: q16)
  have b: "(ucast (ucast (v mod 1000) :: uint16) :: lua_Integer) = of_nat (unat v mod 1000)"
    using of_nat_unat [of "ucast (v mod 1000) :: uint16", where ?'a = lua_Integer]
    by (simp add: r16)
  have c: "(ucast v :: lua_Integer) = of_nat (unat v)" by simp
  have "(1000 :: lua_Integer) * of_nat (unat v div 1000) + of_nat (unat v mod 1000)
        = of_nat (1000 * (unat v div 1000) + unat v mod 1000)"
    by (simp only: of_nat_add of_nat_mult of_nat_numeral)
  also have "\<dots> = of_nat (unat v)" by (simp only: mult_div_mod_eq)
  finally show ?thesis unfolding a b c .
qed

lemma set_get_ack_timeout:
  fixes v :: uint32
  assumes "v \<noteq> 0" and "v < 65536000"
  shows "snd (l_coap_conn_set_ack_timeout sess [LInt (ucast v)]) = Inr []
   \<and> l_coap_conn_get_ack_timeout (fst (l_coap_conn_set_ack_timeout sess [LInt (ucast v)]))
     = [LInt (ucast v)]"
  using assms fixed_point_value [OF assms(2)]
  by (simp add: l_coap_conn_set_ack_timeout_def l_coap_conn_get_ack_timeout_def
        luaL_checkinteger_def lua_arg_def ucast_32_64_32 word_greater_zero_iff Let_def)

text \<open>
  C9. The claim asks that a value not greater than 0 is refused. The Lua integer is
  converted to \<open>unsigned\<close> before the assertion looks at it, so \<open>-1\<close> has become
  4294967295 when it is compared with 0: \<open>set_max_retransmit(-1)\<close> returns normally and
  stores 4294967295, and \<open>set_ack_timeout(-1)\<close> returns normally and stores 35127 seconds
  and 295 milliseconds (4294967 seconds cut to 16 bits).
\<close>

theorem set_max_retransmit_accepts_negative:
  "l_coap_conn_set_max_retransmit sess [LInt (- 1)]
     = (sess\<lparr>max_retransmit := 4294967295\<rparr>, Inr [])
   \<and> l_coap_conn_set_ack_timeout sess [LInt (- 1)]
     = (sess\<lparr>ack_timeout := \<lparr>integer_part = 35127, fractional_part = 295\<rparr>\<rparr>, Inr [])"
  by (simp add: l_coap_conn_set_max_retransmit_def l_coap_conn_set_ack_timeout_def
        luaL_checkinteger_def lua_arg_def ucast_minus_1_64_32)

section \<open>Option codec: unsigned integers\<close>













section \<open>Option codec: opaque values\<close>

lemma ucast_8_64_8: "(ucast (ucast (b :: byte) :: lua_Integer) :: byte) = b"
  by (rule bit_word_eqI) (auto simp: bit_simps)

lemma bytes_array_of_bytes: "bytes_array (map (\<lambda>b. LInt (ucast b)) bs) = Inr bs"
  by (induction bs) (auto simp: ucast_8_64_8)







section \<open>URI path: composing and parsing\<close>

text \<open>
  What an iterator still has to deliver: the values of the options not yet visited that
  pass its filter, none once it is bad.
\<close>

definition passes :: "coap_opt_iterator_t \<Rightarrow> (uint16 \<times> byte list) \<Rightarrow> bool" where
  "passes oi o1 = (\<not> oi_filtered oi \<or> fst o1 \<in> set (oi_filter oi))"




lemma passes_cursor [simp]:
  "passes (oi\<lparr>oi_type := a, oi_next_option := ba\<rparr>) = passes oi"
  by (simp add: passes_def fun_eq_iff)




text \<open>
  The segments of a path as the spec words them: the string is cut at every slash, and
  the empty pieces (before a leading slash, between two slashes, after a trailing one)
  are dropped.
\<close>

fun split_slash :: "byte list \<Rightarrow> byte list list" where
  "split_slash [] = [[]]"
| "split_slash (c # cs) =
     (if c = 0x2F then [] # split_slash cs
      else (c # hd (split_slash cs)) # tl (split_slash cs))"


lemma split_slash_nonempty: "split_slash cs \<noteq> []"
  by (induction cs) auto



















section \<open>Iterators: exhaustion and release of the filter names\<close>

lemma coap_option_next_None_bad: "coap_option_next oi = (oi', None) \<Longrightarrow> oi_bad oi'"
  by (auto simp: coap_option_next_def split: if_splits option.splits)

lemma coap_option_iter_nil_bad:
  "coap_option_iter oi = (oi', [LNil]) \<Longrightarrow> oi_bad oi'"
  by (auto simp: coap_option_iter_def split: if_splits prod.splits option.splits
           dest: coap_option_next_None_bad)

lemma coap_option_iter_bad: "oi_bad oi \<Longrightarrow> coap_option_iter oi = (oi, [LNil])"
  by (simp add: coap_option_iter_def)

lemma unref_all_calls:
  "unref_calls (unref_all L rs) = unref_calls L @ filter (\<lambda>r. 0 \<le> r) rs"
  by (induction rs arbitrary: L) (auto simp: luaL_unref_def)

lemma parse_next_None_bad:
  "parse_next_coap_qstr_param it = (it', None) \<Longrightarrow> oi_bad it'"
  by (auto simp: parse_next_coap_qstr_param_def Let_def split: prod.splits option.splits
           dest: coap_option_next_None_bad)

lemma coap_qstr_param_iter_nil:
  "coap_qstr_param_iter L st = (L1, st1, [LNil]) \<Longrightarrow>
   unref_calls L1 = unref_calls L @ filter (\<lambda>r. 0 \<le> r) (take (n_refs st) (refs st))
   \<and> n_refs st1 = 0 \<and> oi_bad (iter st1)"
proof (induction L st rule: coap_qstr_param_iter.induct)
  case (1 L st)
  show ?case
  proof (cases "oi_bad (iter st)")
    case True
    with "1.prems" show ?thesis
      by (subst (asm) coap_qstr_param_iter.simps)
         (auto simp: free_coap_qstr_param_iter_state_def unref_all_calls)
  next
    case nb: False
    obtain it' r where pn: "parse_next_coap_qstr_param (iter st) = (it', r)"
      by (cases "parse_next_coap_qstr_param (iter st)")
    show ?thesis
    proof (cases r)
      case None
      with "1.prems" nb pn parse_next_None_bad [of "iter st" it'] show ?thesis
        by (subst (asm) coap_qstr_param_iter.simps)
           (auto simp: free_coap_qstr_param_iter_state_def unref_all_calls)
    next
      case (Some nv)
      obtain name val where nv: "nv = (name, val)" by (cases nv)
      let ?st1 = "st\<lparr>iter := it'\<rparr>"
      have skip: "length name = 0
                  \<or> \<not> (n_refs ?st1 = 0 \<or> name_in_filter L (take (n_refs ?st1) (refs ?st1)) name)"
      proof (rule ccontr)
        assume "\<not> ?thesis"
        with "1.prems" nb pn Some nv show False
          by (subst (asm) coap_qstr_param_iter.simps) (simp add: Let_def)
      qed
      then have rec: "coap_qstr_param_iter L st = coap_qstr_param_iter L ?st1"
        using nb pn Some nv by (subst coap_qstr_param_iter.simps) (auto simp: Let_def)
      with "1.prems" have r1: "coap_qstr_param_iter L ?st1 = (L1, st1, [LNil])" by simp
      from skip show ?thesis
      proof
        assume e: "length name = 0"
        from "1.IH"(1) [OF nb pn [symmetric] Some [unfolded nv] refl refl e r1]
        show ?thesis by simp
      next
        assume f: "\<not> (n_refs ?st1 = 0 \<or> name_in_filter L (take (n_refs ?st1) (refs ?st1)) name)"
        show ?thesis
        proof (cases "length name = 0")
          case True
          from "1.IH"(1) [OF nb pn [symmetric] Some [unfolded nv] refl refl True r1]
          show ?thesis by simp
        next
          case False
          from "1.IH"(2) [OF nb pn [symmetric] Some [unfolded nv] refl refl False refl f r1]
          show ?thesis by simp
        qed
      qed
    qed
  qed
qed

lemma coap_qstr_param_iter_value:
  "coap_qstr_param_iter L st = (L1, st1, res) \<Longrightarrow> res \<noteq> [LNil] \<Longrightarrow>
   L1 = L \<and> n_refs st1 = n_refs st \<and> refs st1 = refs st"
proof (induction L st rule: coap_qstr_param_iter.induct)
  case (1 L st)
  have nb: "\<not> oi_bad (iter st)"
  proof
    assume "oi_bad (iter st)"
    with "1.prems" show False
      by (subst (asm) coap_qstr_param_iter.simps) (auto split: prod.splits)
  qed
  obtain it' r where pn: "parse_next_coap_qstr_param (iter st) = (it', r)"
    by (cases "parse_next_coap_qstr_param (iter st)")
  have "r \<noteq> None"
  proof
    assume "r = None"
    with "1.prems" nb pn show False
      by (subst (asm) coap_qstr_param_iter.simps) (auto split: prod.splits)
  qed
  then obtain name val where Some: "r = Some (name, val)" by (cases r) auto
  let ?st1 = "st\<lparr>iter := it'\<rparr>"
  show ?case
  proof (cases "length name = 0")
    case True
    then have "coap_qstr_param_iter L st = coap_qstr_param_iter L ?st1"
      using nb pn Some by (subst coap_qstr_param_iter.simps) (simp add: Let_def)
    with "1.prems" have r1: "coap_qstr_param_iter L ?st1 = (L1, st1, res)" by simp
    from "1.IH"(1) [OF nb pn [symmetric] Some refl refl True r1 "1.prems"(2)]
    show ?thesis by simp
  next
    case ne: False
    show ?thesis
    proof (cases "n_refs ?st1 = 0 \<or> name_in_filter L (take (n_refs ?st1) (refs ?st1)) name")
      case True
      then have "coap_qstr_param_iter L st
                 = (L, ?st1, [LStr name, if 0 < length val then LStr val else LNil])"
        using nb pn Some ne by (subst coap_qstr_param_iter.simps) (simp add: Let_def)
      with "1.prems" show ?thesis by auto
    next
      case False
      then have "coap_qstr_param_iter L st = coap_qstr_param_iter L ?st1"
        using nb pn Some ne by (subst coap_qstr_param_iter.simps) (simp add: Let_def)
      with "1.prems" have r1: "coap_qstr_param_iter L ?st1 = (L1, st1, res)" by simp
      from "1.IH"(2) [OF nb pn [symmetric] Some refl refl ne refl False r1 "1.prems"(2)]
      show ?thesis by simp
    qed
  qed
qed

lemma coap_qstr_param_iter_done:
  "oi_bad (iter st) \<Longrightarrow> n_refs st = 0 \<Longrightarrow> coap_qstr_param_iter L st = (L, st, [LNil])"
  by (subst coap_qstr_param_iter.simps)
     (simp add: free_coap_qstr_param_iter_state_def)

lemma qstr_params_too_many:
  "MAX_QSTR_PARAMS_ARGS < length args \<Longrightarrow>
   l_coap_pdu_qstr_params L ud args = (L, Inl TooManyFilterArgs)"
  by (simp add: l_coap_pdu_qstr_params_def Let_def)

text \<open>The references \<open>l_coap_pdu_qstr_params\<close> keeps: one new registry key per filter name.\<close>

lemma luaL_ref_fresh:
  assumes "luaL_ref L v = (L', r)" and "v \<noteq> LNil"
  shows "0 < r \<and> r \<notin> fst ` set (registry L) \<and> registry L' = (r, v) # registry L
         \<and> unref_calls L' = unref_calls L"
proof -
  have gt: "\<forall>kv \<in> set reg. fst kv < foldr (\<lambda>kv m. max (fst kv + 1) m) reg 1"
    and pos: "0 < foldr (\<lambda>kv m. max (fst kv + 1) m) reg (1 :: int)" for reg :: "(int \<times> lua_value) list"
    by (induction reg) auto
  from assms have r: "r = foldr (\<lambda>kv m. max (fst kv + 1) m) (registry L) 1"
    and L': "L' = L\<lparr>registry := (r, v) # registry L\<rparr>"
    by (auto simp: luaL_ref_def Let_def)
  from gt [of "registry L"] r have "r \<notin> fst ` set (registry L)" by auto
  with pos [of "registry L"] r L' show ?thesis by simp
qed

lemma check_strings_all:
  "check_strings args k = None \<Longrightarrow> k \<le> length args \<Longrightarrow> \<forall>i<k. \<exists>s. args ! i = LStr s"
proof (induction k)
  case 0
  then show ?case by simp
next
  case (Suc k)
  from Suc.prems have c: "check_strings args k = None"
    and s: "\<exists>s. args ! k = LStr s"
    by (auto simp: luaL_checkstring_def lua_arg_def
             split: option.splits sum.splits lua_value.splits if_splits)
  from Suc.IH [OF c] Suc.prems(2) s show ?case by (auto simp: less_Suc_eq)
qed

lemma ref_args_refs:
  assumes "ref_args L args k st = (L', st')"
      and "\<forall>i<k. \<exists>s. args ! i = LStr s"
      and "k \<le> length (refs st)" and "n_refs st = 0"
  shows "n_refs st' = k \<and> length (refs st') = length (refs st) \<and> iter st' = iter st
         \<and> distinct (take k (refs st'))
         \<and> (\<forall>r \<in> set (take k (refs st')). 0 < r \<and> r \<in> fst ` set (registry L'))
         \<and> unref_calls L' = unref_calls L"
  using assms
proof (induction k arbitrary: L' st')
  case 0
  then show ?case by simp
next
  case (Suc k)
  obtain L1 st1 where r1: "ref_args L args k st = (L1, st1)"
    by (cases "ref_args L args k st")
  obtain L2 r where r2: "luaL_ref L1 (args ! k) = (L2, r)"
    by (cases "luaL_ref L1 (args ! k)")
  from Suc.prems(1) r1 r2 have L': "L' = L2"
    and st': "st' = st1\<lparr>refs := (refs st1)[k := r], n_refs := n_refs st1 + 1\<rparr>"
    by auto
  from Suc.prems have ih: "n_refs st1 = k \<and> length (refs st1) = length (refs st)
         \<and> iter st1 = iter st \<and> distinct (take k (refs st1))
         \<and> (\<forall>r \<in> set (take k (refs st1)). 0 < r \<and> r \<in> fst ` set (registry L1))
         \<and> unref_calls L1 = unref_calls L"
    by (intro Suc.IH [OF r1]) auto
  from Suc.prems(2) have "args ! k \<noteq> LNil" by (auto simp: less_Suc_eq)
  from luaL_ref_fresh [OF r2 this]
  have fr: "0 < r" "r \<notin> fst ` set (registry L1)" "registry L2 = (r, args ! k) # registry L1"
    "unref_calls L2 = unref_calls L1" by auto
  have klen: "k < length (refs st1)" using ih Suc.prems(3) by simp
  have tk: "take (Suc k) ((refs st1)[k := r]) = take k (refs st1) @ [r]"
    using klen by (simp add: take_Suc_conv_app_nth)
  have "r \<notin> set (take k (refs st1))" using ih fr(2) by auto
  with ih fr tk klen show ?case unfolding L' st' by auto
qed

lemma qstr_params_refs:
  assumes "l_coap_pdu_qstr_params L ud args = (L', Inr st)"
  shows "n_refs st = length args \<and> distinct (take (n_refs st) (refs st))
         \<and> (\<forall>r \<in> set (take (n_refs st) (refs st)). 0 < r \<and> r \<in> fst ` set (registry L'))
         \<and> unref_calls L' = unref_calls L"
proof -
  let ?st0 = "\<lparr>n_refs = 0, refs = replicate MAX_QSTR_PARAMS_ARGS 0,
               iter = \<lparr>oi_bad = False, oi_type = 0, oi_filtered = False,
                       oi_filter = [], oi_next_option = []\<rparr>\<rparr>"
  from assms have len: "length args \<le> MAX_QSTR_PARAMS_ARGS"
    and chk: "check_strings args (length args) = None"
    by (auto simp: l_coap_pdu_qstr_params_def Let_def split: if_splits option.splits)
  obtain L1 st1 where ra: "ref_args L args (length args) ?st0 = (L1, st1)"
    by (cases "ref_args L args (length args) ?st0")
  from assms len chk ra have L': "L' = L1"
    and st: "st = st1\<lparr>iter := fst (coap_option_iterator_init (pdu ud)
                 (Some (coap_option_filter_set [] (ucast COAP_OPTION_URI_QUERY))))\<rparr>"
    by (auto simp: l_coap_pdu_qstr_params_def Let_def split: if_splits)
  from ref_args_refs [OF ra check_strings_all [OF chk]] len
  show ?thesis unfolding L' st by simp
qed

text \<open>
  C7. Once the iteration function of the options iterator has returned nil, the state
  it left returns nil again and stays as it is, so every later call returns nil. When
  the iteration function of the query string parameters returns nil, it has released
  the \<open>n_refs\<close> retained references (each by one \<open>luaL_unref\<close>), and from the state it
  left every later call, in whatever Lua state, returns nil, changes nothing and
  releases nothing. Until then a call that returns a parameter leaves the Lua state and
  the retained references as they are. The references the constructor retains are one
  new registry key per filter name, all different. A constructor call with 11 or more
  arguments fails with \<open>TooManyFilterArgs\<close> and changes nothing.
\<close>

theorem iterators_stay_exhausted:
  "(coap_option_iter oi = (oi', [LNil]) \<longrightarrow> coap_option_iter oi' = (oi', [LNil]))
   \<and> (coap_qstr_param_iter L st = (L1, st1, [LNil]) \<longrightarrow>
        unref_calls L1 = unref_calls L @ filter (\<lambda>r. 0 \<le> r) (take (n_refs st) (refs st))
        \<and> (\<forall>L2. coap_qstr_param_iter L2 st1 = (L2, st1, [LNil])))
   \<and> (coap_qstr_param_iter L st = (L1, st1, res) \<and> res \<noteq> [LNil] \<longrightarrow>
        L1 = L \<and> n_refs st1 = n_refs st \<and> refs st1 = refs st)
   \<and> (l_coap_pdu_qstr_params L ud args = (L', Inr st') \<longrightarrow>
        n_refs st' = length args \<and> distinct (take (n_refs st') (refs st'))
        \<and> (\<forall>r \<in> set (take (n_refs st') (refs st')). 0 < r)
        \<and> unref_calls L' = unref_calls L)
   \<and> (11 \<le> length args \<longrightarrow> l_coap_pdu_qstr_params L ud args = (L, Inl TooManyFilterArgs))"
proof -
  have p1: "coap_option_iter oi = (oi', [LNil]) \<longrightarrow> coap_option_iter oi' = (oi', [LNil])"
    by (auto intro: coap_option_iter_bad coap_option_iter_nil_bad)
  have p2: "coap_qstr_param_iter L st = (L1, st1, [LNil]) \<longrightarrow>
        unref_calls L1 = unref_calls L @ filter (\<lambda>r. 0 \<le> r) (take (n_refs st) (refs st))
        \<and> (\<forall>L2. coap_qstr_param_iter L2 st1 = (L2, st1, [LNil]))"
  proof
    assume a: "coap_qstr_param_iter L st = (L1, st1, [LNil])"
    note n = coap_qstr_param_iter_nil [OF a]
    from n have "\<forall>L2. coap_qstr_param_iter L2 st1 = (L2, st1, [LNil])"
      by (auto intro: coap_qstr_param_iter_done)
    with n show "unref_calls L1 = unref_calls L @ filter (\<lambda>r. 0 \<le> r) (take (n_refs st) (refs st))
        \<and> (\<forall>L2. coap_qstr_param_iter L2 st1 = (L2, st1, [LNil]))"
      by blast
  qed
  have p3: "coap_qstr_param_iter L st = (L1, st1, res) \<and> res \<noteq> [LNil] \<longrightarrow>
        L1 = L \<and> n_refs st1 = n_refs st \<and> refs st1 = refs st"
    using coap_qstr_param_iter_value [of L st L1 st1 res] by blast
  have p4: "l_coap_pdu_qstr_params L ud args = (L', Inr st') \<longrightarrow>
        n_refs st' = length args \<and> distinct (take (n_refs st') (refs st'))
        \<and> (\<forall>r \<in> set (take (n_refs st') (refs st')). 0 < r)
        \<and> unref_calls L' = unref_calls L"
    using qstr_params_refs [of L ud args L' st'] by blast
  have p5: "11 \<le> length args \<longrightarrow> l_coap_pdu_qstr_params L ud args = (L, Inl TooManyFilterArgs)"
    by (auto intro: qstr_params_too_many simp: MAX_QSTR_PARAMS_ARGS_def)
  from p1 p2 p3 p4 p5 show ?thesis by (intro conjI)
qed

text \<open>
  A message with the single Uri-Query option \<open>flag\<close>, and a Lua state with an empty
  registry.
\<close>

definition flag_msg :: ud_coap_pdu where
  "flag_msg = fresh_msg\<lparr>pdu := empty_pdu\<lparr>pdu_opts := [(15, bytes_of ''flag'')],
                                            pdu_max_delta := 15, pdu_used_size := 6\<rparr>\<rparr>"

definition empty_state :: lua_State where
  "empty_state = \<lparr>registry = [], globals = [], unref_calls = []\<rparr>"

lemma check_strings_two: "check_strings [LStr a, LStr b] (Suc (Suc 0)) = None"
  by (simp add: luaL_checkstring_def lua_arg_def)

lemma ref_args_two: "ref_args empty_state [LStr a, LStr b] (Suc (Suc 0))
     \<lparr>n_refs = 0, refs = replicate MAX_QSTR_PARAMS_ARGS 0,
                           iter = \<lparr>oi_bad = False, oi_type = 0, oi_filtered = False,
                                   oi_filter = [], oi_next_option = []\<rparr>\<rparr>
   = (empty_state\<lparr>registry := [(2, LStr b), (1, LStr a)]\<rparr>, 
      \<lparr>n_refs = 2, refs = [1, 2, 0, 0, 0, 0, 0, 0, 0, 0],
                           iter = \<lparr>oi_bad = False, oi_type = 0, oi_filtered = False,
                                   oi_filter = [], oi_next_option = []\<rparr>\<rparr>)"
  by (simp add: luaL_ref_def empty_state_def MAX_QSTR_PARAMS_ARGS_def Let_def eval_nat_numeral)

lemma qstr_params_flag_zz: "l_coap_pdu_qstr_params empty_state flag_msg
             [LStr (bytes_of ''flag''), LStr (bytes_of ''zz'')] =
    (empty_state\<lparr>registry := [(2, LStr (bytes_of ''zz'')), (1, LStr (bytes_of ''flag''))]\<rparr>,
      Inr \<lparr>n_refs = 2, refs = [1, 2, 0, 0, 0, 0, 0, 0, 0, 0],
           iter = \<lparr>oi_bad = False, oi_type = 0, oi_filtered = True, oi_filter = [15],
                   oi_next_option = [(15, bytes_of ''flag'')]\<rparr>\<rparr>)"
proof -
  have len: "length [LStr (bytes_of ''flag''), LStr (bytes_of ''zz'')] = Suc (Suc 0)"
    by simp
  show ?thesis
    unfolding l_coap_pdu_qstr_params_def Let_def len check_strings_two ref_args_two
    by (simp add: MAX_QSTR_PARAMS_ARGS_def coap_option_iterator_init_def
        coap_option_filter_set_def COAP_OPTION_URI_QUERY_def flag_msg_def fresh_msg_def
        empty_pdu_def)
qed

lemma set_flag_msg:
  "l_coap_pdu_set_option fresh_msg [LInt 15, LStr (bytes_of ''flag'')] = (flag_msg, Inr [])"
  by (simp add: l_coap_pdu_set_option_def luaL_checkinteger_def luaL_checkstring_def
        lua_arg_def Let_def get_coap_optval_type_def coap_add_option_def
        coap_opt_encode_size_def fresh_msg_def empty_pdu_def flag_msg_def bytes_of_def
        COAP_OPTION_IF_MATCH_def COAP_OPTION_IF_NONE_MATCH_def
     COAP_OPTION_OBSERVE_def COAP_OPTION_URI_PORT_def COAP_OPTION_CONTENT_FORMAT_def
     COAP_OPTION_MAXAGE_def COAP_OPTION_ACCEPT_def COAP_OPTION_BLOCK2_def COAP_OPTION_BLOCK1_def
     COAP_OPTION_SIZE2_def COAP_OPTION_SIZE1_def COAP_OPTION_NORESPONSE_def
     COAP_OPTION_URI_HOST_def COAP_OPTION_LOCATION_PATH_def COAP_OPTION_URI_PATH_def
     COAP_OPTION_URI_QUERY_def COAP_OPTION_LOCATION_QUERY_def COAP_OPTION_PROXY_URI_def
     COAP_OPTION_PROXY_SCHEME_def)

theorem iterators_stay_exhausted_witness:
  "l_coap_pdu_qstr_params empty_state flag_msg [LStr (bytes_of ''flag''), LStr (bytes_of ''zz'')]
   = (empty_state\<lparr>registry := [(2, LStr (bytes_of ''zz'')), (1, LStr (bytes_of ''flag''))]\<rparr>,
      Inr \<lparr>n_refs = 2, refs = [1, 2, 0, 0, 0, 0, 0, 0, 0, 0],
           iter = \<lparr>oi_bad = False, oi_type = 0, oi_filtered = True, oi_filter = [15],
                   oi_next_option = [(15, bytes_of ''flag'')]\<rparr>\<rparr>)
   \<and> coap_qstr_param_iter
        (empty_state\<lparr>registry := [(2, LStr (bytes_of ''zz'')), (1, LStr (bytes_of ''flag''))]\<rparr>)
        \<lparr>n_refs = 2, refs = [1, 2, 0, 0, 0, 0, 0, 0, 0, 0],
         iter = \<lparr>oi_bad = False, oi_type = 0, oi_filtered = True, oi_filter = [15],
                 oi_next_option = [(15, bytes_of ''flag'')]\<rparr>\<rparr>
     = (empty_state\<lparr>registry := [(2, LStr (bytes_of ''zz'')), (1, LStr (bytes_of ''flag''))]\<rparr>,
        \<lparr>n_refs = 2, refs = [1, 2, 0, 0, 0, 0, 0, 0, 0, 0],
         iter = \<lparr>oi_bad = False, oi_type = 15, oi_filtered = True, oi_filter = [15],
                 oi_next_option = []\<rparr>\<rparr>,
        [LStr (bytes_of ''flag''), LNil])
   \<and> coap_qstr_param_iter
        (empty_state\<lparr>registry := [(2, LStr (bytes_of ''zz'')), (1, LStr (bytes_of ''flag''))]\<rparr>)
        \<lparr>n_refs = 2, refs = [1, 2, 0, 0, 0, 0, 0, 0, 0, 0],
         iter = \<lparr>oi_bad = False, oi_type = 15, oi_filtered = True, oi_filter = [15],
                 oi_next_option = []\<rparr>\<rparr>
     = (empty_state\<lparr>unref_calls := [1, 2]\<rparr>,
        \<lparr>n_refs = 0, refs = [1, 2, 0, 0, 0, 0, 0, 0, 0, 0],
         iter = \<lparr>oi_bad = True, oi_type = 15, oi_filtered = True, oi_filter = [15],
                 oi_next_option = []\<rparr>\<rparr>,
        [LNil])
   \<and> coap_qstr_param_iter (empty_state\<lparr>unref_calls := [1, 2]\<rparr>)
        \<lparr>n_refs = 0, refs = [1, 2, 0, 0, 0, 0, 0, 0, 0, 0],
         iter = \<lparr>oi_bad = True, oi_type = 15, oi_filtered = True, oi_filter = [15],
                 oi_next_option = []\<rparr>\<rparr>
     = (empty_state\<lparr>unref_calls := [1, 2]\<rparr>,
        \<lparr>n_refs = 0, refs = [1, 2, 0, 0, 0, 0, 0, 0, 0, 0],
         iter = \<lparr>oi_bad = True, oi_type = 15, oi_filtered = True, oi_filter = [15],
                 oi_next_option = []\<rparr>\<rparr>,
        [LNil])
   \<and> coap_option_iter \<lparr>oi_bad = False, oi_type = 15, oi_filtered = False, oi_filter = [],
                        oi_next_option = []\<rparr>
     = (\<lparr>oi_bad = True, oi_type = 15, oi_filtered = False, oi_filter = [],
         oi_next_option = []\<rparr>, [LNil])
   \<and> coap_option_iter \<lparr>oi_bad = True, oi_type = 15, oi_filtered = False, oi_filter = [],
                        oi_next_option = []\<rparr>
     = (\<lparr>oi_bad = True, oi_type = 15, oi_filtered = False, oi_filter = [],
         oi_next_option = []\<rparr>, [LNil])
   \<and> 11 \<le> length (replicate 11 (LStr (bytes_of ''n'')))
   \<and> l_coap_pdu_qstr_params empty_state flag_msg (replicate 11 (LStr (bytes_of ''n'')))
     = (empty_state, Inl TooManyFilterArgs)"
proof -
  let ?L = "empty_state\<lparr>registry := [(2, LStr (bytes_of ''zz'')), (1, LStr (bytes_of ''flag''))]\<rparr>"
  let ?st0 = "\<lparr>n_refs = 2, refs = [1, 2, 0, 0, 0, 0, 0, 0, 0, 0],
         iter = \<lparr>oi_bad = False, oi_type = 0, oi_filtered = True, oi_filter = [15],
                 oi_next_option = [(15, bytes_of ''flag'')]\<rparr>\<rparr>"
  let ?st1 = "\<lparr>n_refs = 2, refs = [1, 2, 0, 0, 0, 0, 0, 0, 0, 0],
         iter = \<lparr>oi_bad = False, oi_type = 15, oi_filtered = True, oi_filter = [15],
                 oi_next_option = []\<rparr>\<rparr>"
  let ?st2 = "\<lparr>n_refs = 0, refs = [1, 2, 0, 0, 0, 0, 0, 0, 0, 0],
         iter = \<lparr>oi_bad = True, oi_type = 15, oi_filtered = True, oi_filter = [15],
                 oi_next_option = []\<rparr>\<rparr>"
  let ?oi1 = "\<lparr>oi_bad = False, oi_type = 15, oi_filtered = False, oi_filter = [],
               oi_next_option = []\<rparr>"
  let ?oi2 = "\<lparr>oi_bad = True, oi_type = 15, oi_filtered = False, oi_filter = [],
               oi_next_option = []\<rparr>"
  have c: "l_coap_pdu_qstr_params empty_state flag_msg
             [LStr (bytes_of ''flag''), LStr (bytes_of ''zz'')] = (?L, Inr ?st0)"
    by (rule qstr_params_flag_zz)
  have s1: "coap_qstr_param_iter ?L ?st0 = (?L, ?st1, [LStr (bytes_of ''flag''), LNil])"
    by (subst coap_qstr_param_iter.simps)
       (simp add: parse_next_coap_qstr_param_def coap_option_next_def Let_def strtrim_def
          isspace_def empty_state_def bytes_of_def)
  have s2: "coap_qstr_param_iter ?L ?st1 = (empty_state\<lparr>unref_calls := [1, 2]\<rparr>, ?st2, [LNil])"
    by (subst coap_qstr_param_iter.simps)
       (simp add: parse_next_coap_qstr_param_def coap_option_next_def
          free_coap_qstr_param_iter_state_def luaL_unref_def empty_state_def numeral_2_eq_2)
  have o1: "coap_option_iter ?oi1 = (?oi2, [LNil])"
    by (simp add: coap_option_iter_def coap_option_next_def)
  have len: "11 \<le> length (replicate 11 (LStr (bytes_of ''n'')))" by simp
  note t = iterators_stay_exhausted
  have s3: "coap_qstr_param_iter (empty_state\<lparr>unref_calls := [1, 2]\<rparr>) ?st2
            = (empty_state\<lparr>unref_calls := [1, 2]\<rparr>, ?st2, [LNil])"
    using t [where L = ?L and st = ?st1 and ?L1.0 = "empty_state\<lparr>unref_calls := [1, 2]\<rparr>"
               and ?st1.0 = ?st2] s2 by blast
  have o2: "coap_option_iter ?oi2 = (?oi2, [LNil])"
    using t [where oi = ?oi1 and oi' = ?oi2] o1 by blast
  have many: "l_coap_pdu_qstr_params empty_state flag_msg (replicate 11 (LStr (bytes_of ''n'')))
     = (empty_state, Inl TooManyFilterArgs)"
    using t [where args = "replicate 11 (LStr (bytes_of ''n''))" and L = empty_state
               and ud = flag_msg] len
    by blast
  from c s1 s2 s3 o1 o2 len many show ?thesis by blast
qed

section \<open>Query string parameters: trimming\<close>

text \<open>A message with the single Uri-Query option \<open>" = x"\<close>.\<close>

definition blank_name_msg :: ud_coap_pdu where
  "blank_name_msg = fresh_msg\<lparr>pdu := empty_pdu\<lparr>pdu_opts := [(15, bytes_of '' = x'')],
                                                  pdu_max_delta := 15, pdu_used_size := 6\<rparr>\<rparr>"

lemma set_blank_name_msg:
  "l_coap_pdu_set_option fresh_msg [LInt 15, LStr (bytes_of '' = x'')] = (blank_name_msg, Inr [])"
  by (simp add: l_coap_pdu_set_option_def luaL_checkinteger_def luaL_checkstring_def
        lua_arg_def Let_def get_coap_optval_type_def coap_add_option_def
        coap_opt_encode_size_def fresh_msg_def empty_pdu_def blank_name_msg_def bytes_of_def
        COAP_OPTION_IF_MATCH_def COAP_OPTION_IF_NONE_MATCH_def
     COAP_OPTION_OBSERVE_def COAP_OPTION_URI_PORT_def COAP_OPTION_CONTENT_FORMAT_def
     COAP_OPTION_MAXAGE_def COAP_OPTION_ACCEPT_def COAP_OPTION_BLOCK2_def COAP_OPTION_BLOCK1_def
     COAP_OPTION_SIZE2_def COAP_OPTION_SIZE1_def COAP_OPTION_NORESPONSE_def
     COAP_OPTION_URI_HOST_def COAP_OPTION_LOCATION_PATH_def COAP_OPTION_URI_PATH_def
     COAP_OPTION_URI_QUERY_def COAP_OPTION_LOCATION_QUERY_def COAP_OPTION_PROXY_URI_def
     COAP_OPTION_PROXY_SCHEME_def)

text \<open>
  \<open>strtrim\<close> stops when its two pointers meet, without looking at the byte they meet
  on: a string of white space keeps one byte.
\<close>

lemma strtrim_one_space: "strtrim (bytes_of '' '') = bytes_of '' ''"
  by (simp add: strtrim_def bytes_of_def)

lemma strtrim_spaces: "strtrim (bytes_of ''   '') = bytes_of '' ''"
  by (simp add: strtrim_def bytes_of_def isspace_def)

text \<open>
  The raw bytes \<open>" name = val "\<close> give the name \<open>name\<close> and the value \<open>val\<close>, and
  \<open>flag\<close> gives the name \<open>flag\<close> without a value.
\<close>

lemma parse_name_val:
  "parse_next_coap_qstr_param
     \<lparr>oi_bad = False, oi_type = 0, oi_filtered = True, oi_filter = [15],
      oi_next_option = [(15, bytes_of '' name = val '')]\<rparr>
   = (\<lparr>oi_bad = False, oi_type = 15, oi_filtered = True, oi_filter = [15],
       oi_next_option = []\<rparr>, Some (bytes_of ''name'', bytes_of ''val''))"
  by (simp add: parse_next_coap_qstr_param_def coap_option_next_def Let_def bytes_of_def
        strtrim_def isspace_def)

lemma parse_flag:
  "parse_next_coap_qstr_param
     \<lparr>oi_bad = False, oi_type = 0, oi_filtered = True, oi_filter = [15],
      oi_next_option = [(15, bytes_of ''flag'')]\<rparr>
   = (\<lparr>oi_bad = False, oi_type = 15, oi_filtered = True, oi_filter = [15],
       oi_next_option = []\<rparr>, Some (bytes_of ''flag'', []))"
  by (simp add: parse_next_coap_qstr_param_def coap_option_next_def Let_def bytes_of_def
        strtrim_def isspace_def)

lemma parse_blank_name:
  "parse_next_coap_qstr_param
     \<lparr>oi_bad = False, oi_type = 0, oi_filtered = True, oi_filter = [15],
      oi_next_option = [(15, bytes_of '' = x'')]\<rparr>
   = (\<lparr>oi_bad = False, oi_type = 15, oi_filtered = True, oi_filter = [15],
       oi_next_option = []\<rparr>, Some (bytes_of '' '', bytes_of ''x''))"
  by (simp add: parse_next_coap_qstr_param_def coap_option_next_def Let_def bytes_of_def
        strtrim_def isspace_def)

lemma replicate_max_args: "replicate MAX_QSTR_PARAMS_ARGS (0 :: int) = [0, 0, 0, 0, 0, 0, 0, 0, 0, 0]"
  by (simp add: MAX_QSTR_PARAMS_ARGS_def numeral_eq_Suc)

text \<open>
  C3. The claim has the raw bytes \<open>" = x"\<close> passed over by the lookup and by the
  iterator, their name being empty once trimmed. In the code the name \<open>" "\<close> is left
  as the single space it is, so it is not empty: \<open>get_qstr_param(" ")\<close> finds the
  parameter with the value \<open>x\<close>, and the first step of an unfiltered \<open>qstr_params()\<close>
  iteration returns the name \<open>" "\<close> with the value \<open>x\<close>.
\<close>

theorem query_blank_name_surfaces:
  "l_coap_pdu_get_qstr_param blank_name_msg [LStr (bytes_of '' '')]
     = Inr [LStr (bytes_of ''x''), LBool True]
   \<and> l_coap_pdu_qstr_params empty_state blank_name_msg []
     = (empty_state,
        Inr \<lparr>n_refs = 0, refs = [0, 0, 0, 0, 0, 0, 0, 0, 0, 0],
             iter = \<lparr>oi_bad = False, oi_type = 0, oi_filtered = True, oi_filter = [15],
                     oi_next_option = [(15, bytes_of '' = x'')]\<rparr>\<rparr>)
   \<and> coap_qstr_param_iter empty_state
        \<lparr>n_refs = 0, refs = [0, 0, 0, 0, 0, 0, 0, 0, 0, 0],
         iter = \<lparr>oi_bad = False, oi_type = 0, oi_filtered = True, oi_filter = [15],
                 oi_next_option = [(15, bytes_of '' = x'')]\<rparr>\<rparr>
     = (empty_state,
        \<lparr>n_refs = 0, refs = [0, 0, 0, 0, 0, 0, 0, 0, 0, 0],
         iter = \<lparr>oi_bad = False, oi_type = 15, oi_filtered = True, oi_filter = [15],
                 oi_next_option = []\<rparr>\<rparr>,
        [LStr (bytes_of '' ''), LStr (bytes_of ''x'')])"
proof -
  have g: "l_coap_pdu_get_qstr_param blank_name_msg [LStr (bytes_of '' '')]
     = Inr [LStr (bytes_of ''x''), LBool True]"
    unfolding l_coap_pdu_get_qstr_param_def Let_def
    by (simp add: luaL_checkstring_def lua_arg_def coap_option_iterator_init_def
          coap_option_filter_set_def COAP_OPTION_URI_QUERY_def blank_name_msg_def
          fresh_msg_def empty_pdu_def)
       (subst get_qstr_param_loop.simps, simp add: parse_blank_name, simp add: bytes_of_def)
  have c: "l_coap_pdu_qstr_params empty_state blank_name_msg []
     = (empty_state,
        Inr \<lparr>n_refs = 0, refs = [0, 0, 0, 0, 0, 0, 0, 0, 0, 0],
             iter = \<lparr>oi_bad = False, oi_type = 0, oi_filtered = True, oi_filter = [15],
                     oi_next_option = [(15, bytes_of '' = x'')]\<rparr>\<rparr>)"
    by (simp add: l_coap_pdu_qstr_params_def Let_def replicate_max_args
          coap_option_iterator_init_def coap_option_filter_set_def COAP_OPTION_URI_QUERY_def
          blank_name_msg_def fresh_msg_def empty_pdu_def)
  have i: "coap_qstr_param_iter empty_state
        \<lparr>n_refs = 0, refs = [0, 0, 0, 0, 0, 0, 0, 0, 0, 0],
         iter = \<lparr>oi_bad = False, oi_type = 0, oi_filtered = True, oi_filter = [15],
                 oi_next_option = [(15, bytes_of '' = x'')]\<rparr>\<rparr>
     = (empty_state,
        \<lparr>n_refs = 0, refs = [0, 0, 0, 0, 0, 0, 0, 0, 0, 0],
         iter = \<lparr>oi_bad = False, oi_type = 15, oi_filtered = True, oi_filter = [15],
                 oi_next_option = []\<rparr>\<rparr>,
        [LStr (bytes_of '' ''), LStr (bytes_of ''x'')])"
    by (subst coap_qstr_param_iter.simps) (simp add: parse_blank_name, simp add: bytes_of_def)
  from g c i show ?thesis by blast
qed

section \<open>Message objects: the lock\<close>

lemma dispatcher_locked:
  "lck (access ud) \<Longrightarrow> pdu_obj_dispacher ud fname = Inl ObjectLocked"
  by (simp add: pdu_obj_dispacher_def)

lemma dispatcher_send_writable_handler:
  assumes "hndlr (access ud) = ACS_REQ_HNDLR" and "\<not> ro (access ud)" and "\<not> lck (access ud)"
  shows "pdu_obj_dispacher ud ''send'' = Inr F_coap_pdu_send_reqh"
  using assms
  by (simp add: pdu_obj_dispacher_def r_funcs_def r_cmnh_funcs_def w_funcs_def
        w_reqh_funcs_def c_string_def)

lemma send_reqh_locks:
  "l_coap_pdu_send_reqh ud args = (ud', Inr rets, ev) \<Longrightarrow>
   lck (access ud') \<and> ro (access ud') = ro (access ud) \<and> hndlr (access ud') = hndlr (access ud)"
  by (auto simp: l_coap_pdu_send_reqh_def Let_def split: sum.splits)

lemma send_reqh_error_keeps_access:
  "l_coap_pdu_send_reqh ud args = (ud', Inl e, ev) \<Longrightarrow> access ud' = access ud"
  by (auto simp: l_coap_pdu_send_reqh_def Let_def split: sum.splits)

lemma set_msg_id_keeps_access: "access (fst (l_coap_pdu_set_msg_id ud args)) = access ud"
  by (simp add: l_coap_pdu_set_msg_id_def Let_def split: sum.splits)

lemma set_option_keeps_access: "access (fst (l_coap_pdu_set_option ud args)) = access ud"
  by (simp add: l_coap_pdu_set_option_def Let_def split: sum.splits option.splits)

lemma set_uri_path_keeps_access: "access (fst (l_coap_pdu_set_uri_path ud args)) = access ud"
  by (simp add: l_coap_pdu_set_uri_path_def
           split: option.splits lua_value.splits prod.splits)

text \<open>
  The dispatcher refuses every method name on a locked object with \<open>ObjectLocked\<close>,
  the read methods and the write methods alike. On the response object of a request
  handler (handler kind request, not read-only, not locked) the name \<open>send\<close> resolves
  to \<open>l_coap_pdu_send_reqh\<close>; a call of it that returns normally leaves the object locked
  (and its other access bits as they were), so that a second \<open>send\<close>, like any other
  method, is refused when it is looked up again. Nothing else locks the object: a \<open>send\<close> that
  raises an error, \<open>set_msg_id\<close>, \<open>set_option\<close> and \<open>set_uri_path\<close> leave the access
  bits as they are.
\<close>

lemma lookup_on_locked_object_refused:
  "(lck (access ud) \<longrightarrow> pdu_obj_dispacher ud fname = Inl ObjectLocked)
   \<and> (hndlr (access ud) = ACS_REQ_HNDLR \<and> \<not> ro (access ud) \<and> \<not> lck (access ud)
        \<longrightarrow> pdu_obj_dispacher ud ''send'' = Inr F_coap_pdu_send_reqh)
   \<and> (l_coap_pdu_send_reqh ud args = (ud', Inr rets, ev)
        \<longrightarrow> lck (access ud') \<and> ro (access ud') = ro (access ud)
            \<and> hndlr (access ud') = hndlr (access ud)
            \<and> pdu_obj_dispacher ud' ''send'' = Inl ObjectLocked
            \<and> pdu_obj_dispacher ud' fname = Inl ObjectLocked)
   \<and> (l_coap_pdu_send_reqh ud args = (ud', Inl e, ev) \<longrightarrow> access ud' = access ud)
   \<and> access (fst (l_coap_pdu_set_msg_id ud args)) = access ud
   \<and> access (fst (l_coap_pdu_set_option ud args)) = access ud
   \<and> access (fst (l_coap_pdu_set_uri_path ud args)) = access ud"
proof -
  have p1: "lck (access ud) \<longrightarrow> pdu_obj_dispacher ud fname = Inl ObjectLocked"
    by (simp add: dispatcher_locked)
  have p2: "hndlr (access ud) = ACS_REQ_HNDLR \<and> \<not> ro (access ud) \<and> \<not> lck (access ud)
        \<longrightarrow> pdu_obj_dispacher ud ''send'' = Inr F_coap_pdu_send_reqh"
    using dispatcher_send_writable_handler [of ud] by blast
  have p3: "l_coap_pdu_send_reqh ud args = (ud', Inr rets, ev)
        \<longrightarrow> lck (access ud') \<and> ro (access ud') = ro (access ud)
            \<and> hndlr (access ud') = hndlr (access ud)
            \<and> pdu_obj_dispacher ud' ''send'' = Inl ObjectLocked
            \<and> pdu_obj_dispacher ud' fname = Inl ObjectLocked"
  proof
    assume a: "l_coap_pdu_send_reqh ud args = (ud', Inr rets, ev)"
    note l = send_reqh_locks [OF a]
    from l have "pdu_obj_dispacher ud' ''send'' = Inl ObjectLocked"
      and "pdu_obj_dispacher ud' fname = Inl ObjectLocked"
      by (simp_all add: dispatcher_locked)
    with l show "lck (access ud') \<and> ro (access ud') = ro (access ud)
            \<and> hndlr (access ud') = hndlr (access ud)
            \<and> pdu_obj_dispacher ud' ''send'' = Inl ObjectLocked
            \<and> pdu_obj_dispacher ud' fname = Inl ObjectLocked" by blast
  qed
  have p4: "l_coap_pdu_send_reqh ud args = (ud', Inl e, ev) \<longrightarrow> access ud' = access ud"
    using send_reqh_error_keeps_access [of ud args ud' e ev] by blast
  from p1 p2 p3 p4 set_msg_id_keeps_access [of ud args] set_option_keeps_access [of ud args]
    set_uri_path_keeps_access [of ud args]
  show ?thesis by (intro conjI)
qed

lemma resp_msg_unfold:
  "resp_msg = \<lparr>pdu = empty_pdu\<lparr>pdu_type := 2, pdu_code := 0\<rparr>, session = Some a_session,
               def_code = 205,
               access = \<lparr>ro = False, lck = False, hndlr = ACS_REQ_HNDLR\<rparr>\<rparr>"
  by (simp add: resp_msg_def req_hndlr_ud_resp_def get_coap_resp_code_def empty_pdu_def
        COAP_REQUEST_GET_def)

lemma response_code_205: "COAP_RESPONSE_CODE 205 = 69"
  by (simp add: COAP_RESPONSE_CODE_def signed_divide_int_def signed_modulo_int_def)

lemma send_resp_msg:
  "l_coap_pdu_send_reqh resp_msg [LInt 205, LStr (bytes_of ''ok'')]
   = (resp_msg\<lparr>pdu := empty_pdu\<lparr>pdu_type := 2, pdu_code := 69, pdu_data := bytes_of ''ok'',
                                   pdu_used_size := 3\<rparr>,
                access := \<lparr>ro = False, lck = True, hndlr = ACS_REQ_HNDLR\<rparr>\<rparr>, Inr [], [])"
  by (simp add: l_coap_pdu_send_reqh_def Let_def lua_type_def lua_arg_def set_payload_def
        coap_add_data_def response_code_205 resp_msg_unfold empty_pdu_def bytes_of_def)

lemma send_resp_msg_bad_payload:
  "l_coap_pdu_send_reqh resp_msg [LInt 205, LBool True]
   = (resp_msg\<lparr>pdu := empty_pdu\<lparr>pdu_type := 2, pdu_code := 69\<rparr>\<rparr>, Inl InvalidArgument, [])"
  by (simp add: l_coap_pdu_send_reqh_def Let_def lua_type_def lua_arg_def set_payload_def
        coap_add_data_def response_code_205 resp_msg_unfold empty_pdu_def bytes_of_def)

lemma response_code_404: "COAP_RESPONSE_CODE 404 = 132"
  by (simp add: COAP_RESPONSE_CODE_def signed_divide_int_def signed_modulo_int_def)

text \<open>The response object after \<open>send(205, "ok")\<close>: code 2.05, the payload, and the lock.\<close>

definition sent_msg :: ud_coap_pdu where
  "sent_msg =
     resp_msg\<lparr>pdu := empty_pdu\<lparr>pdu_type := 2, pdu_code := 69, pdu_data := bytes_of ''ok'',
                                  pdu_used_size := 3\<rparr>,
               access := \<lparr>ro = False, lck = True, hndlr = ACS_REQ_HNDLR\<rparr>\<rparr>"

text \<open>
  C1. The claim asks that a second send attempt on the response object fails. The lock
  is tested in one place only, the lookup of a method name by \<open>_pdu_obj_dispacher\<close>;
  \<open>l_coap_pdu_send_reqh\<close> takes its object from the upvalue of the closure that the
  lookup returned and never reads the lock. A request handler that keeps the method,
  \<open>local s = resp.send; s(resp, 205, "ok"); s(resp, 404)\<close>, looks \<open>send\<close> up once, on the
  unlocked object. The first call returns normally and leaves the object locked with code
  2.05 (69); a new lookup of \<open>send\<close> on it is refused with \<open>ObjectLocked\<close>; the second
  call of the kept method returns normally all the same and rewrites the code of the
  locked response to 4.04 (132).
\<close>

theorem kept_send_runs_on_locked_object:
  "pdu_obj_dispacher resp_msg ''send'' = Inr F_coap_pdu_send_reqh
   \<and> l_coap_pdu_send_reqh resp_msg [LInt 205, LStr (bytes_of ''ok'')] = (sent_msg, Inr [], [])
   \<and> lck (access sent_msg)
   \<and> pdu_code (pdu sent_msg) = 69
   \<and> pdu_obj_dispacher sent_msg ''send'' = Inl ObjectLocked
   \<and> l_coap_pdu_send_reqh sent_msg [LInt 404]
       = (sent_msg\<lparr>pdu := (pdu sent_msg)\<lparr>pdu_code := 132\<rparr>\<rparr>, Inr [], [])"
proof -
  have d: "pdu_obj_dispacher resp_msg ''send'' = Inr F_coap_pdu_send_reqh"
    by (rule dispatcher_send_writable_handler) (simp_all add: resp_msg_unfold)
  have s1: "l_coap_pdu_send_reqh resp_msg [LInt 205, LStr (bytes_of ''ok'')]
            = (sent_msg, Inr [], [])"
    unfolding sent_msg_def by (rule send_resp_msg)
  have l: "lck (access sent_msg)" by (simp add: sent_msg_def)
  have c: "pdu_code (pdu sent_msg) = 69" by (simp add: sent_msg_def)
  have d1: "pdu_obj_dispacher sent_msg ''send'' = Inl ObjectLocked"
    using l by (rule dispatcher_locked)
  have s2: "l_coap_pdu_send_reqh sent_msg [LInt 404]
            = (sent_msg\<lparr>pdu := (pdu sent_msg)\<lparr>pdu_code := 132\<rparr>\<rparr>, Inr [], [])"
    by (simp add: l_coap_pdu_send_reqh_def Let_def lua_type_def lua_arg_def set_payload_def
          coap_add_data_def response_code_404 sent_msg_def resp_msg_unfold empty_pdu_def)
  from d s1 l c d1 s2 show ?thesis by (intro conjI)
qed

section \<open>Connection send\<close>

text \<open>The payload argument of a send: none, a string, or a table of byte values.\<close>

definition payload_args :: "lua_value list \<Rightarrow> byte list \<Rightarrow> bool" where
  "payload_args args d =
     ((args = [] \<and> d = []) \<or> args = [LStr d] \<or> args = [LTable (map (\<lambda>b. LInt (ucast b)) d)])"

lemma set_payload_valid:
  "payload_args args d \<Longrightarrow> set_payload p args (Suc 0) = Inr (coap_add_data p d)"
  by (auto simp: payload_args_def set_payload_def lua_arg_def bytes_array_of_bytes)

lemma coap_add_data_attaches:
  "d \<noteq> [] \<Longrightarrow> pdu_used_size p + length d + 1 \<le> pdu_max_size p \<Longrightarrow>
   coap_add_data p d = p\<lparr>pdu_data := d, pdu_used_size := pdu_used_size p + length d + 1\<rparr>"
  by (simp add: coap_add_data_def)

text \<open>
  C5. \<open>send\<close> of a connection refuses a message object of a handler with
  \<open>WrongSendPath\<close>, leaving the object as it is and doing nothing else. For an object
  created by \<open>new_msg\<close> and a payload argument that is absent, a string or a table of
  byte values, it attaches the payload with \<open>coap_add_data\<close>, hands the message to
  \<open>coap_send\<close>, locks the object and returns normally with no value; when \<open>coap_send\<close>
  fails, the only difference is one more log line. A payload that is not empty and fits
  the message becomes the data of the message.
\<close>

theorem conn_send_fresh_only:
  "(hndlr (access ud_pdu) \<noteq> ACS_NO_HNDLR
      \<longrightarrow> l_coap_conn_send eng ud_conn ud_pdu args = (ud_pdu, Inl WrongSendPath, []))
   \<and> (hndlr (access ud_pdu) = ACS_NO_HNDLR \<and> payload_args args d
      \<longrightarrow> l_coap_conn_send eng ud_conn ud_pdu args
          = (ud_pdu\<lparr>pdu := coap_add_data (pdu ud_pdu) d,
                    access := (access ud_pdu)\<lparr>lck := True\<rparr>\<rparr>,
             Inr [],
             [Log_pdu ''new'' (coap_add_data (pdu ud_pdu) d) False,
              Coap_send (conn_session ud_conn) (coap_add_data (pdu ud_pdu) d)]
             @ (if coap_send eng (conn_session ud_conn) (coap_add_data (pdu ud_pdu) d)
                   = COAP_INVALID_TID
                then [Log_error ''coap_send() failed''] else [])))
   \<and> (d \<noteq> [] \<and> pdu_used_size (pdu ud_pdu) + length d + 1 \<le> pdu_max_size (pdu ud_pdu)
      \<longrightarrow> coap_add_data (pdu ud_pdu) d
          = (pdu ud_pdu)\<lparr>pdu_data := d,
                          pdu_used_size := pdu_used_size (pdu ud_pdu) + length d + 1\<rparr>)"
proof -
  have p1: "hndlr (access ud_pdu) \<noteq> ACS_NO_HNDLR
      \<longrightarrow> l_coap_conn_send eng ud_conn ud_pdu args = (ud_pdu, Inl WrongSendPath, [])"
    by (simp add: l_coap_conn_send_def)
  have p2: "hndlr (access ud_pdu) = ACS_NO_HNDLR \<and> payload_args args d
      \<longrightarrow> l_coap_conn_send eng ud_conn ud_pdu args
          = (ud_pdu\<lparr>pdu := coap_add_data (pdu ud_pdu) d,
                    access := (access ud_pdu)\<lparr>lck := True\<rparr>\<rparr>,
             Inr [],
             [Log_pdu ''new'' (coap_add_data (pdu ud_pdu) d) False,
              Coap_send (conn_session ud_conn) (coap_add_data (pdu ud_pdu) d)]
             @ (if coap_send eng (conn_session ud_conn) (coap_add_data (pdu ud_pdu) d)
                   = COAP_INVALID_TID
                then [Log_error ''coap_send() failed''] else []))"
  proof
    assume a: "hndlr (access ud_pdu) = ACS_NO_HNDLR \<and> payload_args args d"
    then have sp: "set_payload (pdu ud_pdu) args (Suc 0) = Inr (coap_add_data (pdu ud_pdu) d)"
      by (simp add: set_payload_valid)
    from a show "l_coap_conn_send eng ud_conn ud_pdu args
          = (ud_pdu\<lparr>pdu := coap_add_data (pdu ud_pdu) d,
                    access := (access ud_pdu)\<lparr>lck := True\<rparr>\<rparr>,
             Inr [],
             [Log_pdu ''new'' (coap_add_data (pdu ud_pdu) d) False,
              Coap_send (conn_session ud_conn) (coap_add_data (pdu ud_pdu) d)]
             @ (if coap_send eng (conn_session ud_conn) (coap_add_data (pdu ud_pdu) d)
                   = COAP_INVALID_TID
                then [Log_error ''coap_send() failed''] else []))"
      by (simp add: l_coap_conn_send_def sp)
  qed
  have p3: "d \<noteq> [] \<and> pdu_used_size (pdu ud_pdu) + length d + 1 \<le> pdu_max_size (pdu ud_pdu)
      \<longrightarrow> coap_add_data (pdu ud_pdu) d
          = (pdu ud_pdu)\<lparr>pdu_data := d,
                          pdu_used_size := pdu_used_size (pdu ud_pdu) + length d + 1\<rparr>"
    using coap_add_data_attaches [of d "pdu ud_pdu"] by blast
  from p1 p2 p3 show ?thesis by (intro conjI)
qed

text \<open>An engine whose \<open>coap_send\<close> always fails, and a client connection.\<close>

definition failing_engine :: engine where
  "failing_engine = \<lparr>coap_send = (\<lambda>s p. COAP_INVALID_TID), can_alloc = True\<rparr>"

definition a_connection :: ud_connection where
  "a_connection = \<lparr>conn_session = a_session, gc = True\<rparr>"

theorem conn_send_fresh_only_witness:
  "hndlr (access resp_msg) \<noteq> ACS_NO_HNDLR
   \<and> l_coap_conn_send failing_engine a_connection resp_msg [LStr (bytes_of ''hi'')]
     = (resp_msg, Inl WrongSendPath, [])
   \<and> hndlr (access fresh_msg) = ACS_NO_HNDLR
   \<and> payload_args [LStr (bytes_of ''hi'')] (bytes_of ''hi'')
   \<and> bytes_of ''hi'' \<noteq> []
   \<and> pdu_used_size (pdu fresh_msg) + length (bytes_of ''hi'') + 1 \<le> pdu_max_size (pdu fresh_msg)
   \<and> l_coap_conn_send failing_engine a_connection fresh_msg [LStr (bytes_of ''hi'')]
     = (fresh_msg\<lparr>pdu := empty_pdu\<lparr>pdu_data := bytes_of ''hi'', pdu_used_size := 3\<rparr>,
                   access := \<lparr>ro = False, lck = True, hndlr = ACS_NO_HNDLR\<rparr>\<rparr>,
        Inr [],
        [Log_pdu ''new'' (empty_pdu\<lparr>pdu_data := bytes_of ''hi'', pdu_used_size := 3\<rparr>) False,
         Coap_send a_session (empty_pdu\<lparr>pdu_data := bytes_of ''hi'', pdu_used_size := 3\<rparr>),
         Log_error ''coap_send() failed''])"
proof -
  have h1: "hndlr (access resp_msg) \<noteq> ACS_NO_HNDLR"
    by (simp add: resp_msg_def req_hndlr_ud_resp_def ACS_NO_HNDLR_def ACS_REQ_HNDLR_def)
  have h2: "hndlr (access fresh_msg) = ACS_NO_HNDLR" by (simp add: fresh_msg_def)
  have h3: "payload_args [LStr (bytes_of ''hi'')] (bytes_of ''hi'')"
    by (simp add: payload_args_def)
  have h4: "bytes_of ''hi'' \<noteq> []" by (simp add: bytes_of_def)
  have h5: "pdu_used_size (pdu fresh_msg) + length (bytes_of ''hi'') + 1
            \<le> pdu_max_size (pdu fresh_msg)"
    by (simp add: fresh_msg_def empty_pdu_def bytes_of_def)
  note t = conn_send_fresh_only [where eng = failing_engine and ud_conn = a_connection
             and args = "[LStr (bytes_of ''hi'')]" and d = "bytes_of ''hi''"]
  have r1: "l_coap_conn_send failing_engine a_connection resp_msg [LStr (bytes_of ''hi'')]
     = (resp_msg, Inl WrongSendPath, [])"
    using t [where ud_pdu = resp_msg] h1 by blast
  have ad: "coap_add_data (pdu fresh_msg) (bytes_of ''hi'')
            = empty_pdu\<lparr>pdu_data := bytes_of ''hi'', pdu_used_size := 3\<rparr>"
    using t [where ud_pdu = fresh_msg] h4 h5
    by (simp add: fresh_msg_def empty_pdu_def bytes_of_def)
  have r2: "l_coap_conn_send failing_engine a_connection fresh_msg [LStr (bytes_of ''hi'')]
     = (fresh_msg\<lparr>pdu := empty_pdu\<lparr>pdu_data := bytes_of ''hi'', pdu_used_size := 3\<rparr>,
                   access := \<lparr>ro = False, lck = True, hndlr = ACS_NO_HNDLR\<rparr>\<rparr>,
        Inr [],
        [Log_pdu ''new'' (empty_pdu\<lparr>pdu_data := bytes_of ''hi'', pdu_used_size := 3\<rparr>) False,
         Coap_send a_session (empty_pdu\<lparr>pdu_data := bytes_of ''hi'', pdu_used_size := 3\<rparr>),
         Log_error ''coap_send() failed''])"
    using t [where ud_pdu = fresh_msg] h2 h3
    by (simp add: ad failing_engine_def a_connection_def) (simp add: fresh_msg_def)
  from h1 r1 h2 h3 h4 h5 r2 show ?thesis by (intro conjI)
qed

section \<open>Response handler: automatic acknowledgment\<close>

text \<open>The empty acknowledgment of a received message.\<close>

definition empty_ack :: "coap_pdu \<Rightarrow> coap_pdu" where
  "empty_ack received =
     \<lparr>pdu_type = COAP_MESSAGE_ACK, pdu_code = 0, pdu_tid = pdu_tid received, pdu_token = [],
      pdu_opts = [], pdu_max_delta = 0, pdu_data = [], pdu_used_size = 0, pdu_max_size = 0\<rparr>"

text \<open>The messages handed to \<open>coap_send\<close>, in order.\<close>

definition sends :: "event list \<Rightarrow> (coap_session \<times> coap_pdu) list" where
  "sends ev = concat (map (\<lambda>e. case e of Coap_send s p \<Rightarrow> [(s, p)] | _ \<Rightarrow> []) ev)"

lemma sends_append: "sends (xs @ ys) = sends xs @ sends ys"
  by (simp add: sends_def)

lemma resp_hndlr_ack_sends: "sends (snd (resp_hndlr_ack results)) = []"
  by (simp add: resp_hndlr_ack_def Let_def sends_def)

lemma resp_hndlr_finish_sends:
  "sends (resp_hndlr_finish eng sess received handle_ack)
   = (if handle_ack \<and> pdu_type received = COAP_MESSAGE_CON \<and> can_alloc eng
      then [(sess, empty_ack received)] else [])"
  by (auto simp: resp_hndlr_finish_def coap_pdu_init_def sends_def empty_ack_def)

lemma resp_hndlr_ack_cases:
  "resp_hndlr_ack [] = (True, [])"
  "resp_hndlr_ack (LNil # rs) = (True, [])"
  "resp_hndlr_ack (LBool b # rs) = (b, [])"
  by (simp_all add: resp_hndlr_ack_def lua_toboolean_def)

lemma resp_hndlr_ack_other:
  assumes "v \<noteq> LNil" and "\<forall>b. v \<noteq> LBool b"
  shows "resp_hndlr_ack (v # rs)
         = (True, [Log_warn (''Ignoring invalid type [id: %d] returned by the CoAP response ''
                             @ ''handler; boolean or nothing expected'')])"
  using assms by (cases v) (auto simp: resp_hndlr_ack_def)

lemma coap_resp_hndlr_called:
  assumes "push_hndlr L (resph lib_ctx) RESP_HANDLER = Some h"
      and "lua_call h
             \<lparr>pdu = sent, session = Some sess, def_code = 0,
              access = \<lparr>ro = True, lck = False, hndlr = ACS_RESP_HNDLR\<rparr>\<rparr>
             \<lparr>pdu = received, session = Some sess, def_code = 0,
              access = \<lparr>ro = True, lck = False, hndlr = ACS_RESP_HNDLR\<rparr>\<rparr> = Inr results"
  shows "coap_resp_hndlr eng lua_call L lib_ctx sess sent received
         = ([Log_pdu ''resph'' received True] @ snd (resp_hndlr_ack results)
            @ resp_hndlr_finish eng sess received (fst (resp_hndlr_ack results)), None)"
  using assms by (simp add: coap_resp_hndlr_def Let_def split: prod.splits)

text \<open>
  C8. The value the response handler returned decides \<open>handle_ack\<close>: it is true for no
  value and for nil, the boolean itself for a boolean, and true with one warning logged
  for any other value. When the handler has been called and has returned, the bridge
  raises no error and hands to \<open>coap_send\<close> exactly the empty acknowledgment of the
  received message if \<open>handle_ack\<close> is true and the received message is confirmable
  (and the engine can allocate the acknowledgment), and nothing otherwise.
\<close>

theorem resp_handler_auto_ack:
  "resp_hndlr_ack [] = (True, [])
   \<and> resp_hndlr_ack (LNil # rs) = (True, [])
   \<and> resp_hndlr_ack (LBool b # rs) = (b, [])
   \<and> (v \<noteq> LNil \<and> (\<forall>b. v \<noteq> LBool b)
        \<longrightarrow> resp_hndlr_ack (v # rs)
            = (True, [Log_warn (''Ignoring invalid type [id: %d] returned by the CoAP response ''
                                @ ''handler; boolean or nothing expected'')]))
   \<and> (push_hndlr L (resph lib_ctx) RESP_HANDLER = Some h
       \<and> lua_call h
             \<lparr>pdu = sent, session = Some sess, def_code = 0,
              access = \<lparr>ro = True, lck = False, hndlr = ACS_RESP_HNDLR\<rparr>\<rparr>
             \<lparr>pdu = received, session = Some sess, def_code = 0,
              access = \<lparr>ro = True, lck = False, hndlr = ACS_RESP_HNDLR\<rparr>\<rparr> = Inr results
        \<longrightarrow> snd (coap_resp_hndlr eng lua_call L lib_ctx sess sent received) = None
            \<and> sends (fst (coap_resp_hndlr eng lua_call L lib_ctx sess sent received))
              = (if fst (resp_hndlr_ack results) \<and> pdu_type received = COAP_MESSAGE_CON
                    \<and> can_alloc eng
                 then [(sess, empty_ack received)] else []))"
proof -
  have p4: "v \<noteq> LNil \<and> (\<forall>b. v \<noteq> LBool b)
        \<longrightarrow> resp_hndlr_ack (v # rs)
            = (True, [Log_warn (''Ignoring invalid type [id: %d] returned by the CoAP response ''
                                @ ''handler; boolean or nothing expected'')])"
    using resp_hndlr_ack_other [of v rs] by blast
  have p5: "push_hndlr L (resph lib_ctx) RESP_HANDLER = Some h
       \<and> lua_call h
             \<lparr>pdu = sent, session = Some sess, def_code = 0,
              access = \<lparr>ro = True, lck = False, hndlr = ACS_RESP_HNDLR\<rparr>\<rparr>
             \<lparr>pdu = received, session = Some sess, def_code = 0,
              access = \<lparr>ro = True, lck = False, hndlr = ACS_RESP_HNDLR\<rparr>\<rparr> = Inr results
        \<longrightarrow> snd (coap_resp_hndlr eng lua_call L lib_ctx sess sent received) = None
            \<and> sends (fst (coap_resp_hndlr eng lua_call L lib_ctx sess sent received))
              = (if fst (resp_hndlr_ack results) \<and> pdu_type received = COAP_MESSAGE_CON
                    \<and> can_alloc eng
                 then [(sess, empty_ack received)] else [])"
  proof
    assume a: "push_hndlr L (resph lib_ctx) RESP_HANDLER = Some h
       \<and> lua_call h
             \<lparr>pdu = sent, session = Some sess, def_code = 0,
              access = \<lparr>ro = True, lck = False, hndlr = ACS_RESP_HNDLR\<rparr>\<rparr>
             \<lparr>pdu = received, session = Some sess, def_code = 0,
              access = \<lparr>ro = True, lck = False, hndlr = ACS_RESP_HNDLR\<rparr>\<rparr> = Inr results"
    have c: "coap_resp_hndlr eng lua_call L lib_ctx sess sent received
         = ([Log_pdu ''resph'' received True] @ snd (resp_hndlr_ack results)
            @ resp_hndlr_finish eng sess received (fst (resp_hndlr_ack results)), None)"
      using a by (intro coap_resp_hndlr_called) blast+
    have s0: "sends [Log_pdu ''resph'' received True] = []" by (simp add: sends_def)
    show "snd (coap_resp_hndlr eng lua_call L lib_ctx sess sent received) = None
            \<and> sends (fst (coap_resp_hndlr eng lua_call L lib_ctx sess sent received))
              = (if fst (resp_hndlr_ack results) \<and> pdu_type received = COAP_MESSAGE_CON
                    \<and> can_alloc eng
                 then [(sess, empty_ack received)] else [])"
      unfolding c
      by (simp only: fst_conv snd_conv sends_append s0 resp_hndlr_ack_sends
            resp_hndlr_finish_sends append_Nil simp_thms)
  qed
  from resp_hndlr_ack_cases p4 p5 show ?thesis by (intro conjI)
qed

lemma coap_resp_hndlr_no_handler:
  "push_hndlr L (resph lib_ctx) RESP_HANDLER = None \<Longrightarrow>
   coap_resp_hndlr eng lua_call L lib_ctx sess sent received
   = ([Log_pdu ''resph'' received True] @ resp_hndlr_finish eng sess received True, None)"
  by (simp add: coap_resp_hndlr_def)

text \<open>
  A Lua state whose global \<open>coap_resp_handler\<close> is a function, and a library context
  without registered handlers.
\<close>

definition handler_state :: lua_State where
  "handler_state = \<lparr>registry = [], globals = [(RESP_HANDLER, LFunction 0)], unref_calls = []\<rparr>"

definition default_ctx :: lib_ctx_t where
  "default_ctx = \<lparr>max_pdu_sz = 1152, reqh = LUA_NOREF, resph = LUA_NOREF, nackh = LUA_NOREF\<rparr>"

theorem resp_handler_auto_ack_witness:
  "LInt 3 \<noteq> LNil \<and> (\<forall>b. LInt 3 \<noteq> LBool b)
   \<and> resp_hndlr_ack [LInt 3]
     = (True, [Log_warn (''Ignoring invalid type [id: %d] returned by the CoAP response ''
                         @ ''handler; boolean or nothing expected'')])
   \<and> push_hndlr handler_state (resph default_ctx) RESP_HANDLER = Some (LFunction 0)
   \<and> snd (coap_resp_hndlr failing_engine (\<lambda>h s r. Inr [LInt 3]) handler_state default_ctx
             a_session empty_pdu empty_pdu) = None
   \<and> sends (fst (coap_resp_hndlr failing_engine (\<lambda>h s r. Inr [LInt 3]) handler_state
                    default_ctx a_session empty_pdu empty_pdu))
     = [(a_session, empty_ack empty_pdu)]
   \<and> sends (fst (coap_resp_hndlr failing_engine (\<lambda>h s r. Inr [LBool False]) handler_state
                    default_ctx a_session empty_pdu empty_pdu))
     = []"
proof -
  have h: "push_hndlr handler_state (resph default_ctx) RESP_HANDLER = Some (LFunction 0)"
    by (simp add: push_hndlr_def handler_state_def default_ctx_def)
  have con: "pdu_type empty_pdu = COAP_MESSAGE_CON"
    by (simp add: empty_pdu_def COAP_MESSAGE_CON_def)
  have al: "can_alloc failing_engine" by (simp add: failing_engine_def)
  note t = resp_handler_auto_ack [where L = handler_state and lib_ctx = default_ctx
             and h = "LFunction 0" and sess = a_session and sent = empty_pdu
             and received = empty_pdu and eng = failing_engine]
  have w: "resp_hndlr_ack [LInt 3]
     = (True, [Log_warn (''Ignoring invalid type [id: %d] returned by the CoAP response ''
                         @ ''handler; boolean or nothing expected'')])"
    using t [where v = "LInt 3" and rs = "[]"] by simp
  have f: "resp_hndlr_ack [LBool False] = (False, [])"
    using t [where b = False and rs = "[]"] by simp
  have r1: "snd (coap_resp_hndlr failing_engine (\<lambda>h s r. Inr [LInt 3]) handler_state default_ctx
             a_session empty_pdu empty_pdu) = None
    \<and> sends (fst (coap_resp_hndlr failing_engine (\<lambda>h s r. Inr [LInt 3]) handler_state
                    default_ctx a_session empty_pdu empty_pdu))
     = [(a_session, empty_ack empty_pdu)]"
    using t [where lua_call = "\<lambda>h s r. Inr [LInt 3]" and results = "[LInt 3]"] h con al w
    by simp
  have r2: "sends (fst (coap_resp_hndlr failing_engine (\<lambda>h s r. Inr [LBool False]) handler_state
                    default_ctx a_session empty_pdu empty_pdu))
     = []"
    using t [where lua_call = "\<lambda>h s r. Inr [LBool False]" and results = "[LBool False]"] h f
    by simp
  from h w r1 r2 show ?thesis by simp
qed

end
